theory Spec2Isabelle
  imports Main
begin

section \<open>Python strings\<close>

text \<open>
  The module \<^verbatim>\<open>data_provider/us_index_mapping.py\<close> works on Python \<^verbatim>\<open>str\<close> values: sequences
  of Unicode code points. A code point is a natural number and a string is a list of
  code points, so \<^verbatim>\<open>len\<close> is \<^const>\<open>length\<close> and slicing is \<^const>\<open>take\<close> and \<^const>\<open>drop\<close>.
  \<open>str_of\<close> reads an ASCII literal of the source as such a string.
\<close>

type_synonym codepoint = nat
type_synonym str = "codepoint list"

definition str_of :: "string \<Rightarrow> str" where
  "str_of s = map of_char s"

subsection \<open>The Unicode character database\<close>

text \<open>
  \<^verbatim>\<open>str.strip\<close>, \<^verbatim>\<open>str.upper\<close>, \<^verbatim>\<open>str.isdigit\<close> and the regular expression engine read
  character properties from the Unicode character database of the interpreter. The
  tables below are those of Unicode 14.0.0 (CPython 3.11), in full: a property is a list
  of closed code point ranges, a case mapping is a list of runs.
\<close>

definition in_ranges :: "(codepoint \<times> codepoint) list \<Rightarrow> codepoint \<Rightarrow> bool" where
  "in_ranges rs c = list_ex (\<lambda>(lo, hi). lo \<le> c \<and> c \<le> hi) rs"

text \<open>\<^verbatim>\<open>Py_UNICODE_ISSPACE\<close>: the characters \<^verbatim>\<open>str.strip()\<close> removes.\<close>

definition whitespace_ranges :: "(codepoint \<times> codepoint) list" where
  "whitespace_ranges =
  [(0x9, 0xD), (0x1C, 0x20), (0x85, 0x85), (0xA0, 0xA0), (0x1680, 0x1680), (0x2000, 0x200A),
   (0x2028, 0x2029), (0x202F, 0x202F), (0x205F, 0x205F), (0x3000, 0x3000)]"

definition py_isspace :: "codepoint \<Rightarrow> bool" where
  "py_isspace c = in_ranges whitespace_ranges c"

text \<open>
  \<^verbatim>\<open>Py_UNICODE_ISDECIMAL\<close> (Numeric_Type=Decimal, the general category Nd): what
  \<^verbatim>\<open>str.isdecimal\<close> tests and what \<^verbatim>\<open>\d\<close> matches in a \<^verbatim>\<open>str\<close> pattern.
\<close>

definition decimal_ranges :: "(codepoint \<times> codepoint) list" where
  "decimal_ranges =
  [(0x30, 0x39), (0x660, 0x669), (0x6F0, 0x6F9), (0x7C0, 0x7C9), (0x966, 0x96F),
   (0x9E6, 0x9EF), (0xA66, 0xA6F), (0xAE6, 0xAEF), (0xB66, 0xB6F), (0xBE6, 0xBEF),
   (0xC66, 0xC6F), (0xCE6, 0xCEF), (0xD66, 0xD6F), (0xDE6, 0xDEF), (0xE50, 0xE59),
   (0xED0, 0xED9), (0xF20, 0xF29), (0x1040, 0x1049), (0x1090, 0x1099), (0x17E0, 0x17E9),
   (0x1810, 0x1819), (0x1946, 0x194F), (0x19D0, 0x19D9), (0x1A80, 0x1A89), (0x1A90, 0x1A99),
   (0x1B50, 0x1B59), (0x1BB0, 0x1BB9), (0x1C40, 0x1C49), (0x1C50, 0x1C59), (0xA620, 0xA629),
   (0xA8D0, 0xA8D9), (0xA900, 0xA909), (0xA9D0, 0xA9D9), (0xA9F0, 0xA9F9), (0xAA50, 0xAA59),
   (0xABF0, 0xABF9), (0xFF10, 0xFF19), (0x104A0, 0x104A9), (0x10D30, 0x10D39),
   (0x11066, 0x1106F), (0x110F0, 0x110F9), (0x11136, 0x1113F), (0x111D0, 0x111D9),
   (0x112F0, 0x112F9), (0x11450, 0x11459), (0x114D0, 0x114D9), (0x11650, 0x11659),
   (0x116C0, 0x116C9), (0x11730, 0x11739), (0x118E0, 0x118E9), (0x11950, 0x11959),
   (0x11C50, 0x11C59), (0x11D50, 0x11D59), (0x11DA0, 0x11DA9), (0x16A60, 0x16A69),
   (0x16AC0, 0x16AC9), (0x16B50, 0x16B59), (0x1D7CE, 0x1D7FF), (0x1E140, 0x1E149),
   (0x1E2F0, 0x1E2F9), (0x1E950, 0x1E959), (0x1FBF0, 0x1FBF9)]"

definition py_isdecimal :: "codepoint \<Rightarrow> bool" where
  "py_isdecimal c = in_ranges decimal_ranges c"

text \<open>
  \<^verbatim>\<open>Py_UNICODE_ISDIGIT\<close> (Numeric_Type=Decimal or Digit): what \<^verbatim>\<open>str.isdigit\<close> tests.
  The ranges below are the characters of Numeric_Type=Digit: superscripts, subscripts,
  circled and parenthesised digits and the like.
\<close>

definition other_digit_ranges :: "(codepoint \<times> codepoint) list" where
  "other_digit_ranges =
  [(0xB2, 0xB3), (0xB9, 0xB9), (0x1369, 0x1371), (0x19DA, 0x19DA), (0x2070, 0x2070),
   (0x2074, 0x2079), (0x2080, 0x2089), (0x2460, 0x2468), (0x2474, 0x247C), (0x2488, 0x2490),
   (0x24EA, 0x24EA), (0x24F5, 0x24FD), (0x24FF, 0x24FF), (0x2776, 0x277E), (0x2780, 0x2788),
   (0x278A, 0x2792), (0x10A40, 0x10A43), (0x10E60, 0x10E68), (0x11052, 0x1105A),
   (0x1F100, 0x1F10A)]"

definition py_isdigit :: "codepoint \<Rightarrow> bool" where
  "py_isdigit c = (py_isdecimal c \<or> in_ranges other_digit_ranges c)"

text \<open>
  A run \<open>(lo, hi, step, tgt)\<close> of a case mapping sends the code points
  \<open>lo, lo + step, \<dots>, hi\<close> to \<open>tgt, tgt + step, \<dots>\<close>.
\<close>

type_synonym case_run = "codepoint \<times> codepoint \<times> nat \<times> codepoint"

fun in_run :: "case_run \<Rightarrow> codepoint \<Rightarrow> bool" where
  "in_run (lo, hi, step, tgt) c = (lo \<le> c \<and> c \<le> hi \<and> (c - lo) mod step = 0)"

fun run_target :: "case_run \<Rightarrow> codepoint \<Rightarrow> codepoint" where
  "run_target (lo, hi, step, tgt) c = tgt + (c - lo)"

definition run_lookup :: "case_run list \<Rightarrow> codepoint \<Rightarrow> codepoint option" where
  "run_lookup rs c = map_option (\<lambda>r. run_target r c) (find (\<lambda>r. in_run r c) rs)"

text \<open>The simple uppercase mapping, for the characters whose uppercase is one character.\<close>

definition upper_runs_1 :: "case_run list" where
  "upper_runs_1 =
  [(0x61, 0x7A, 1, 0x41), (0xB5, 0xB5, 1, 0x39C), (0xE0, 0xF6, 1, 0xC0), (0xF8, 0xFE, 1, 0xD8),
   (0xFF, 0xFF, 1, 0x178), (0x101, 0x12F, 2, 0x100), (0x131, 0x131, 1, 0x49),
   (0x133, 0x137, 2, 0x132), (0x13A, 0x148, 2, 0x139), (0x14B, 0x177, 2, 0x14A),
   (0x17A, 0x17E, 2, 0x179), (0x17F, 0x17F, 1, 0x53), (0x180, 0x180, 1, 0x243)]"

definition upper_runs_2 :: "case_run list" where
  "upper_runs_2 =
  [(0x183, 0x185, 2, 0x182), (0x188, 0x188, 1, 0x187), (0x18C, 0x18C, 1, 0x18B),
   (0x192, 0x192, 1, 0x191), (0x195, 0x195, 1, 0x1F6), (0x199, 0x199, 1, 0x198),
   (0x19A, 0x19A, 1, 0x23D), (0x19E, 0x19E, 1, 0x220), (0x1A1, 0x1A5, 2, 0x1A0),
   (0x1A8, 0x1A8, 1, 0x1A7), (0x1AD, 0x1AD, 1, 0x1AC), (0x1B0, 0x1B0, 1, 0x1AF),
   (0x1B4, 0x1B6, 2, 0x1B3)]"

definition upper_runs_3 :: "case_run list" where
  "upper_runs_3 =
  [(0x1B9, 0x1B9, 1, 0x1B8), (0x1BD, 0x1BD, 1, 0x1BC), (0x1BF, 0x1BF, 1, 0x1F7),
   (0x1C5, 0x1C5, 1, 0x1C4), (0x1C6, 0x1C6, 1, 0x1C4), (0x1C8, 0x1C8, 1, 0x1C7),
   (0x1C9, 0x1C9, 1, 0x1C7), (0x1CB, 0x1CB, 1, 0x1CA), (0x1CC, 0x1CC, 1, 0x1CA),
   (0x1CE, 0x1DC, 2, 0x1CD), (0x1DD, 0x1DD, 1, 0x18E), (0x1DF, 0x1EF, 2, 0x1DE),
   (0x1F2, 0x1F2, 1, 0x1F1)]"

definition upper_runs_4 :: "case_run list" where
  "upper_runs_4 =
  [(0x1F3, 0x1F3, 1, 0x1F1), (0x1F5, 0x1F5, 1, 0x1F4), (0x1F9, 0x21F, 2, 0x1F8),
   (0x223, 0x233, 2, 0x222), (0x23C, 0x23C, 1, 0x23B), (0x23F, 0x240, 1, 0x2C7E),
   (0x242, 0x242, 1, 0x241), (0x247, 0x24F, 2, 0x246), (0x250, 0x250, 1, 0x2C6F),
   (0x251, 0x251, 1, 0x2C6D), (0x252, 0x252, 1, 0x2C70), (0x253, 0x253, 1, 0x181),
   (0x254, 0x254, 1, 0x186)]"

definition upper_runs_5 :: "case_run list" where
  "upper_runs_5 =
  [(0x256, 0x257, 1, 0x189), (0x259, 0x259, 1, 0x18F), (0x25B, 0x25B, 1, 0x190),
   (0x25C, 0x25C, 1, 0xA7AB), (0x260, 0x260, 1, 0x193), (0x261, 0x261, 1, 0xA7AC),
   (0x263, 0x263, 1, 0x194), (0x265, 0x265, 1, 0xA78D), (0x266, 0x266, 1, 0xA7AA),
   (0x268, 0x268, 1, 0x197), (0x269, 0x269, 1, 0x196), (0x26A, 0x26A, 1, 0xA7AE),
   (0x26B, 0x26B, 1, 0x2C62)]"

definition upper_runs_6 :: "case_run list" where
  "upper_runs_6 =
  [(0x26C, 0x26C, 1, 0xA7AD), (0x26F, 0x26F, 1, 0x19C), (0x271, 0x271, 1, 0x2C6E),
   (0x272, 0x272, 1, 0x19D), (0x275, 0x275, 1, 0x19F), (0x27D, 0x27D, 1, 0x2C64),
   (0x280, 0x280, 1, 0x1A6), (0x282, 0x282, 1, 0xA7C5), (0x283, 0x283, 1, 0x1A9),
   (0x287, 0x287, 1, 0xA7B1), (0x288, 0x288, 1, 0x1AE), (0x289, 0x289, 1, 0x244),
   (0x28A, 0x28B, 1, 0x1B1)]"

definition upper_runs_7 :: "case_run list" where
  "upper_runs_7 =
  [(0x28C, 0x28C, 1, 0x245), (0x292, 0x292, 1, 0x1B7), (0x29D, 0x29D, 1, 0xA7B2),
   (0x29E, 0x29E, 1, 0xA7B0), (0x345, 0x345, 1, 0x399), (0x371, 0x373, 2, 0x370),
   (0x377, 0x377, 1, 0x376), (0x37B, 0x37D, 1, 0x3FD), (0x3AC, 0x3AC, 1, 0x386),
   (0x3AD, 0x3AF, 1, 0x388), (0x3B1, 0x3C1, 1, 0x391), (0x3C2, 0x3C2, 1, 0x3A3),
   (0x3C3, 0x3CB, 1, 0x3A3)]"

definition upper_runs_8 :: "case_run list" where
  "upper_runs_8 =
  [(0x3CC, 0x3CC, 1, 0x38C), (0x3CD, 0x3CE, 1, 0x38E), (0x3D0, 0x3D0, 1, 0x392),
   (0x3D1, 0x3D1, 1, 0x398), (0x3D5, 0x3D5, 1, 0x3A6), (0x3D6, 0x3D6, 1, 0x3A0),
   (0x3D7, 0x3D7, 1, 0x3CF), (0x3D9, 0x3EF, 2, 0x3D8), (0x3F0, 0x3F0, 1, 0x39A),
   (0x3F1, 0x3F1, 1, 0x3A1), (0x3F2, 0x3F2, 1, 0x3F9), (0x3F3, 0x3F3, 1, 0x37F),
   (0x3F5, 0x3F5, 1, 0x395)]"

definition upper_runs_9 :: "case_run list" where
  "upper_runs_9 =
  [(0x3F8, 0x3F8, 1, 0x3F7), (0x3FB, 0x3FB, 1, 0x3FA), (0x430, 0x44F, 1, 0x410),
   (0x450, 0x45F, 1, 0x400), (0x461, 0x481, 2, 0x460), (0x48B, 0x4BF, 2, 0x48A),
   (0x4C2, 0x4CE, 2, 0x4C1), (0x4CF, 0x4CF, 1, 0x4C0), (0x4D1, 0x52F, 2, 0x4D0),
   (0x561, 0x586, 1, 0x531), (0x10D0, 0x10FA, 1, 0x1C90), (0x10FD, 0x10FF, 1, 0x1CBD),
   (0x13F8, 0x13FD, 1, 0x13F0)]"

definition upper_runs_10 :: "case_run list" where
  "upper_runs_10 =
  [(0x1C80, 0x1C80, 1, 0x412), (0x1C81, 0x1C81, 1, 0x414), (0x1C82, 0x1C82, 1, 0x41E),
   (0x1C83, 0x1C84, 1, 0x421), (0x1C85, 0x1C85, 1, 0x422), (0x1C86, 0x1C86, 1, 0x42A),
   (0x1C87, 0x1C87, 1, 0x462), (0x1C88, 0x1C88, 1, 0xA64A), (0x1D79, 0x1D79, 1, 0xA77D),
   (0x1D7D, 0x1D7D, 1, 0x2C63), (0x1D8E, 0x1D8E, 1, 0xA7C6), (0x1E01, 0x1E95, 2, 0x1E00),
   (0x1E9B, 0x1E9B, 1, 0x1E60)]"

definition upper_runs_11 :: "case_run list" where
  "upper_runs_11 =
  [(0x1EA1, 0x1EFF, 2, 0x1EA0), (0x1F00, 0x1F07, 1, 0x1F08), (0x1F10, 0x1F15, 1, 0x1F18),
   (0x1F20, 0x1F27, 1, 0x1F28), (0x1F30, 0x1F37, 1, 0x1F38), (0x1F40, 0x1F45, 1, 0x1F48),
   (0x1F51, 0x1F57, 2, 0x1F59), (0x1F60, 0x1F67, 1, 0x1F68), (0x1F70, 0x1F71, 1, 0x1FBA),
   (0x1F72, 0x1F75, 1, 0x1FC8), (0x1F76, 0x1F77, 1, 0x1FDA), (0x1F78, 0x1F79, 1, 0x1FF8),
   (0x1F7A, 0x1F7B, 1, 0x1FEA)]"

definition upper_runs_12 :: "case_run list" where
  "upper_runs_12 =
  [(0x1F7C, 0x1F7D, 1, 0x1FFA), (0x1FB0, 0x1FB1, 1, 0x1FB8), (0x1FBE, 0x1FBE, 1, 0x399),
   (0x1FD0, 0x1FD1, 1, 0x1FD8), (0x1FE0, 0x1FE1, 1, 0x1FE8), (0x1FE5, 0x1FE5, 1, 0x1FEC),
   (0x214E, 0x214E, 1, 0x2132), (0x2170, 0x217F, 1, 0x2160), (0x2184, 0x2184, 1, 0x2183),
   (0x24D0, 0x24E9, 1, 0x24B6), (0x2C30, 0x2C5F, 1, 0x2C00), (0x2C61, 0x2C61, 1, 0x2C60),
   (0x2C65, 0x2C65, 1, 0x23A)]"

definition upper_runs_13 :: "case_run list" where
  "upper_runs_13 =
  [(0x2C66, 0x2C66, 1, 0x23E), (0x2C68, 0x2C6C, 2, 0x2C67), (0x2C73, 0x2C73, 1, 0x2C72),
   (0x2C76, 0x2C76, 1, 0x2C75), (0x2C81, 0x2CE3, 2, 0x2C80), (0x2CEC, 0x2CEE, 2, 0x2CEB),
   (0x2CF3, 0x2CF3, 1, 0x2CF2), (0x2D00, 0x2D25, 1, 0x10A0), (0x2D27, 0x2D27, 1, 0x10C7),
   (0x2D2D, 0x2D2D, 1, 0x10CD), (0xA641, 0xA66D, 2, 0xA640), (0xA681, 0xA69B, 2, 0xA680),
   (0xA723, 0xA72F, 2, 0xA722)]"

definition upper_runs_14 :: "case_run list" where
  "upper_runs_14 =
  [(0xA733, 0xA76F, 2, 0xA732), (0xA77A, 0xA77C, 2, 0xA779), (0xA77F, 0xA787, 2, 0xA77E),
   (0xA78C, 0xA78C, 1, 0xA78B), (0xA791, 0xA793, 2, 0xA790), (0xA794, 0xA794, 1, 0xA7C4),
   (0xA797, 0xA7A9, 2, 0xA796), (0xA7B5, 0xA7C3, 2, 0xA7B4), (0xA7C8, 0xA7CA, 2, 0xA7C7),
   (0xA7D1, 0xA7D1, 1, 0xA7D0), (0xA7D7, 0xA7D9, 2, 0xA7D6), (0xA7F6, 0xA7F6, 1, 0xA7F5),
   (0xAB53, 0xAB53, 1, 0xA7B3)]"

definition upper_runs_15 :: "case_run list" where
  "upper_runs_15 =
  [(0xAB70, 0xABBF, 1, 0x13A0), (0xFF41, 0xFF5A, 1, 0xFF21), (0x10428, 0x1044F, 1, 0x10400),
   (0x104D8, 0x104FB, 1, 0x104B0), (0x10597, 0x105BB, 2, 0x10570),
   (0x10598, 0x105A0, 2, 0x10571), (0x105A4, 0x105B0, 2, 0x1057D),
   (0x105B4, 0x105B8, 2, 0x1058D), (0x105BC, 0x105BC, 1, 0x10595),
   (0x10CC0, 0x10CF2, 1, 0x10C80), (0x118C0, 0x118DF, 1, 0x118A0),
   (0x16E60, 0x16E7F, 1, 0x16E40), (0x1E922, 0x1E943, 1, 0x1E900)]"

definition upper_runs :: "case_run list" where
  "upper_runs =
     upper_runs_1 @ upper_runs_2 @ upper_runs_3 @ upper_runs_4 @ upper_runs_5 @ upper_runs_6 @
     upper_runs_7 @ upper_runs_8 @ upper_runs_9 @ upper_runs_10 @ upper_runs_11 @ upper_runs_12 @
     upper_runs_13 @ upper_runs_14 @ upper_runs_15"

text \<open>The characters whose uppercase is more than one character (SpecialCasing).\<close>

definition upper_special_1 :: "(codepoint \<times> codepoint list) list" where
  "upper_special_1 =
  [(0xDF, [0x53, 0x53]), (0x149, [0x2BC, 0x4E]), (0x1F0, [0x4A, 0x30C]),
   (0x390, [0x399, 0x308, 0x301]), (0x3B0, [0x3A5, 0x308, 0x301]), (0x587, [0x535, 0x552]),
   (0x1E96, [0x48, 0x331]), (0x1E97, [0x54, 0x308]), (0x1E98, [0x57, 0x30A]),
   (0x1E99, [0x59, 0x30A]), (0x1E9A, [0x41, 0x2BE]), (0x1F50, [0x3A5, 0x313]),
   (0x1F52, [0x3A5, 0x313, 0x300])]"

definition upper_special_2 :: "(codepoint \<times> codepoint list) list" where
  "upper_special_2 =
  [(0x1F54, [0x3A5, 0x313, 0x301]), (0x1F56, [0x3A5, 0x313, 0x342]), (0x1F80, [0x1F08, 0x399]),
   (0x1F81, [0x1F09, 0x399]), (0x1F82, [0x1F0A, 0x399]), (0x1F83, [0x1F0B, 0x399]),
   (0x1F84, [0x1F0C, 0x399]), (0x1F85, [0x1F0D, 0x399]), (0x1F86, [0x1F0E, 0x399]),
   (0x1F87, [0x1F0F, 0x399]), (0x1F88, [0x1F08, 0x399]), (0x1F89, [0x1F09, 0x399]),
   (0x1F8A, [0x1F0A, 0x399])]"

definition upper_special_3 :: "(codepoint \<times> codepoint list) list" where
  "upper_special_3 =
  [(0x1F8B, [0x1F0B, 0x399]), (0x1F8C, [0x1F0C, 0x399]), (0x1F8D, [0x1F0D, 0x399]),
   (0x1F8E, [0x1F0E, 0x399]), (0x1F8F, [0x1F0F, 0x399]), (0x1F90, [0x1F28, 0x399]),
   (0x1F91, [0x1F29, 0x399]), (0x1F92, [0x1F2A, 0x399]), (0x1F93, [0x1F2B, 0x399]),
   (0x1F94, [0x1F2C, 0x399]), (0x1F95, [0x1F2D, 0x399]), (0x1F96, [0x1F2E, 0x399]),
   (0x1F97, [0x1F2F, 0x399])]"

definition upper_special_4 :: "(codepoint \<times> codepoint list) list" where
  "upper_special_4 =
  [(0x1F98, [0x1F28, 0x399]), (0x1F99, [0x1F29, 0x399]), (0x1F9A, [0x1F2A, 0x399]),
   (0x1F9B, [0x1F2B, 0x399]), (0x1F9C, [0x1F2C, 0x399]), (0x1F9D, [0x1F2D, 0x399]),
   (0x1F9E, [0x1F2E, 0x399]), (0x1F9F, [0x1F2F, 0x399]), (0x1FA0, [0x1F68, 0x399]),
   (0x1FA1, [0x1F69, 0x399]), (0x1FA2, [0x1F6A, 0x399]), (0x1FA3, [0x1F6B, 0x399]),
   (0x1FA4, [0x1F6C, 0x399])]"

definition upper_special_5 :: "(codepoint \<times> codepoint list) list" where
  "upper_special_5 =
  [(0x1FA5, [0x1F6D, 0x399]), (0x1FA6, [0x1F6E, 0x399]), (0x1FA7, [0x1F6F, 0x399]),
   (0x1FA8, [0x1F68, 0x399]), (0x1FA9, [0x1F69, 0x399]), (0x1FAA, [0x1F6A, 0x399]),
   (0x1FAB, [0x1F6B, 0x399]), (0x1FAC, [0x1F6C, 0x399]), (0x1FAD, [0x1F6D, 0x399]),
   (0x1FAE, [0x1F6E, 0x399]), (0x1FAF, [0x1F6F, 0x399]), (0x1FB2, [0x1FBA, 0x399]),
   (0x1FB3, [0x391, 0x399])]"

definition upper_special_6 :: "(codepoint \<times> codepoint list) list" where
  "upper_special_6 =
  [(0x1FB4, [0x386, 0x399]), (0x1FB6, [0x391, 0x342]), (0x1FB7, [0x391, 0x342, 0x399]),
   (0x1FBC, [0x391, 0x399]), (0x1FC2, [0x1FCA, 0x399]), (0x1FC3, [0x397, 0x399]),
   (0x1FC4, [0x389, 0x399]), (0x1FC6, [0x397, 0x342]), (0x1FC7, [0x397, 0x342, 0x399]),
   (0x1FCC, [0x397, 0x399]), (0x1FD2, [0x399, 0x308, 0x300]), (0x1FD3, [0x399, 0x308, 0x301]),
   (0x1FD6, [0x399, 0x342])]"

definition upper_special_7 :: "(codepoint \<times> codepoint list) list" where
  "upper_special_7 =
  [(0x1FD7, [0x399, 0x308, 0x342]), (0x1FE2, [0x3A5, 0x308, 0x300]),
   (0x1FE3, [0x3A5, 0x308, 0x301]), (0x1FE4, [0x3A1, 0x313]), (0x1FE6, [0x3A5, 0x342]),
   (0x1FE7, [0x3A5, 0x308, 0x342]), (0x1FF2, [0x1FFA, 0x399]), (0x1FF3, [0x3A9, 0x399]),
   (0x1FF4, [0x38F, 0x399]), (0x1FF6, [0x3A9, 0x342]), (0x1FF7, [0x3A9, 0x342, 0x399]),
   (0x1FFC, [0x3A9, 0x399]), (0xFB00, [0x46, 0x46])]"

definition upper_special_8 :: "(codepoint \<times> codepoint list) list" where
  "upper_special_8 =
  [(0xFB01, [0x46, 0x49]), (0xFB02, [0x46, 0x4C]), (0xFB03, [0x46, 0x46, 0x49]),
   (0xFB04, [0x46, 0x46, 0x4C]), (0xFB05, [0x53, 0x54]), (0xFB06, [0x53, 0x54]),
   (0xFB13, [0x544, 0x546]), (0xFB14, [0x544, 0x535]), (0xFB15, [0x544, 0x53B]),
   (0xFB16, [0x54E, 0x546]), (0xFB17, [0x544, 0x53D])]"

definition upper_special :: "(codepoint \<times> codepoint list) list" where
  "upper_special =
     upper_special_1 @ upper_special_2 @ upper_special_3 @ upper_special_4 @ upper_special_5 @
     upper_special_6 @ upper_special_7 @ upper_special_8"

text \<open>\<^verbatim>\<open>_PyUnicode_ToUpperFull\<close>: the uppercase of one character, as \<^verbatim>\<open>str.upper\<close> uses it.\<close>

definition py_toupper_full :: "codepoint \<Rightarrow> codepoint list" where
  "py_toupper_full c =
     (case map_of upper_special c of
        Some u \<Rightarrow> u
      | None \<Rightarrow> (case run_lookup upper_runs c of Some u \<Rightarrow> [u] | None \<Rightarrow> [c]))"

text \<open>The simple lowercase mapping.\<close>

definition lower_runs :: "case_run list" where
  "lower_runs =
  [(0x41, 0x5A, 1, 0x61), (0xC0, 0xD6, 1, 0xE0), (0xD8, 0xDE, 1, 0xF8),
   (0x100, 0x12E, 2, 0x101), (0x130, 0x130, 1, 0x69), (0x132, 0x136, 2, 0x133),
   (0x139, 0x147, 2, 0x13A), (0x14A, 0x176, 2, 0x14B), (0x178, 0x178, 1, 0xFF),
   (0x179, 0x17D, 2, 0x17A), (0x181, 0x181, 1, 0x253), (0x182, 0x184, 2, 0x183),
   (0x186, 0x186, 1, 0x254), (0x187, 0x187, 1, 0x188), (0x189, 0x18A, 1, 0x256),
   (0x18B, 0x18B, 1, 0x18C), (0x18E, 0x18E, 1, 0x1DD), (0x18F, 0x18F, 1, 0x259),
   (0x190, 0x190, 1, 0x25B), (0x191, 0x191, 1, 0x192), (0x193, 0x193, 1, 0x260),
   (0x194, 0x194, 1, 0x263), (0x196, 0x196, 1, 0x269), (0x197, 0x197, 1, 0x268),
   (0x198, 0x198, 1, 0x199), (0x19C, 0x19C, 1, 0x26F), (0x19D, 0x19D, 1, 0x272),
   (0x19F, 0x19F, 1, 0x275), (0x1A0, 0x1A4, 2, 0x1A1), (0x1A6, 0x1A6, 1, 0x280),
   (0x1A7, 0x1A7, 1, 0x1A8), (0x1A9, 0x1A9, 1, 0x283), (0x1AC, 0x1AC, 1, 0x1AD),
   (0x1AE, 0x1AE, 1, 0x288), (0x1AF, 0x1AF, 1, 0x1B0), (0x1B1, 0x1B2, 1, 0x28A),
   (0x1B3, 0x1B5, 2, 0x1B4), (0x1B7, 0x1B7, 1, 0x292), (0x1B8, 0x1B8, 1, 0x1B9),
   (0x1BC, 0x1BC, 1, 0x1BD), (0x1C4, 0x1C4, 1, 0x1C6), (0x1C5, 0x1C5, 1, 0x1C6),
   (0x1C7, 0x1C7, 1, 0x1C9), (0x1C8, 0x1C8, 1, 0x1C9), (0x1CA, 0x1CA, 1, 0x1CC),
   (0x1CB, 0x1DB, 2, 0x1CC), (0x1DE, 0x1EE, 2, 0x1DF), (0x1F1, 0x1F1, 1, 0x1F3),
   (0x1F2, 0x1F4, 2, 0x1F3), (0x1F6, 0x1F6, 1, 0x195), (0x1F7, 0x1F7, 1, 0x1BF),
   (0x1F8, 0x21E, 2, 0x1F9), (0x220, 0x220, 1, 0x19E), (0x222, 0x232, 2, 0x223),
   (0x23A, 0x23A, 1, 0x2C65), (0x23B, 0x23B, 1, 0x23C), (0x23D, 0x23D, 1, 0x19A),
   (0x23E, 0x23E, 1, 0x2C66), (0x241, 0x241, 1, 0x242), (0x243, 0x243, 1, 0x180),
   (0x244, 0x244, 1, 0x289), (0x245, 0x245, 1, 0x28C), (0x246, 0x24E, 2, 0x247),
   (0x370, 0x372, 2, 0x371), (0x376, 0x376, 1, 0x377), (0x37F, 0x37F, 1, 0x3F3),
   (0x386, 0x386, 1, 0x3AC), (0x388, 0x38A, 1, 0x3AD), (0x38C, 0x38C, 1, 0x3CC),
   (0x38E, 0x38F, 1, 0x3CD), (0x391, 0x3A1, 1, 0x3B1), (0x3A3, 0x3AB, 1, 0x3C3),
   (0x3CF, 0x3CF, 1, 0x3D7), (0x3D8, 0x3EE, 2, 0x3D9), (0x3F4, 0x3F4, 1, 0x3B8),
   (0x3F7, 0x3F7, 1, 0x3F8), (0x3F9, 0x3F9, 1, 0x3F2), (0x3FA, 0x3FA, 1, 0x3FB),
   (0x3FD, 0x3FF, 1, 0x37B), (0x400, 0x40F, 1, 0x450), (0x410, 0x42F, 1, 0x430),
   (0x460, 0x480, 2, 0x461), (0x48A, 0x4BE, 2, 0x48B), (0x4C0, 0x4C0, 1, 0x4CF),
   (0x4C1, 0x4CD, 2, 0x4C2), (0x4D0, 0x52E, 2, 0x4D1), (0x531, 0x556, 1, 0x561),
   (0x10A0, 0x10C5, 1, 0x2D00), (0x10C7, 0x10C7, 1, 0x2D27), (0x10CD, 0x10CD, 1, 0x2D2D),
   (0x13A0, 0x13EF, 1, 0xAB70), (0x13F0, 0x13F5, 1, 0x13F8), (0x1C90, 0x1CBA, 1, 0x10D0),
   (0x1CBD, 0x1CBF, 1, 0x10FD), (0x1E00, 0x1E94, 2, 0x1E01), (0x1E9E, 0x1E9E, 1, 0xDF),
   (0x1EA0, 0x1EFE, 2, 0x1EA1), (0x1F08, 0x1F0F, 1, 0x1F00), (0x1F18, 0x1F1D, 1, 0x1F10),
   (0x1F28, 0x1F2F, 1, 0x1F20), (0x1F38, 0x1F3F, 1, 0x1F30), (0x1F48, 0x1F4D, 1, 0x1F40),
   (0x1F59, 0x1F5F, 2, 0x1F51), (0x1F68, 0x1F6F, 1, 0x1F60), (0x1F88, 0x1F8F, 1, 0x1F80),
   (0x1F98, 0x1F9F, 1, 0x1F90), (0x1FA8, 0x1FAF, 1, 0x1FA0), (0x1FB8, 0x1FB9, 1, 0x1FB0),
   (0x1FBA, 0x1FBB, 1, 0x1F70), (0x1FBC, 0x1FBC, 1, 0x1FB3), (0x1FC8, 0x1FCB, 1, 0x1F72),
   (0x1FCC, 0x1FCC, 1, 0x1FC3), (0x1FD8, 0x1FD9, 1, 0x1FD0), (0x1FDA, 0x1FDB, 1, 0x1F76),
   (0x1FE8, 0x1FE9, 1, 0x1FE0), (0x1FEA, 0x1FEB, 1, 0x1F7A), (0x1FEC, 0x1FEC, 1, 0x1FE5),
   (0x1FF8, 0x1FF9, 1, 0x1F78), (0x1FFA, 0x1FFB, 1, 0x1F7C), (0x1FFC, 0x1FFC, 1, 0x1FF3),
   (0x2126, 0x2126, 1, 0x3C9), (0x212A, 0x212A, 1, 0x6B), (0x212B, 0x212B, 1, 0xE5),
   (0x2132, 0x2132, 1, 0x214E), (0x2160, 0x216F, 1, 0x2170), (0x2183, 0x2183, 1, 0x2184),
   (0x24B6, 0x24CF, 1, 0x24D0), (0x2C00, 0x2C2F, 1, 0x2C30), (0x2C60, 0x2C60, 1, 0x2C61),
   (0x2C62, 0x2C62, 1, 0x26B), (0x2C63, 0x2C63, 1, 0x1D7D), (0x2C64, 0x2C64, 1, 0x27D),
   (0x2C67, 0x2C6B, 2, 0x2C68), (0x2C6D, 0x2C6D, 1, 0x251), (0x2C6E, 0x2C6E, 1, 0x271),
   (0x2C6F, 0x2C6F, 1, 0x250), (0x2C70, 0x2C70, 1, 0x252), (0x2C72, 0x2C72, 1, 0x2C73),
   (0x2C75, 0x2C75, 1, 0x2C76), (0x2C7E, 0x2C7F, 1, 0x23F), (0x2C80, 0x2CE2, 2, 0x2C81),
   (0x2CEB, 0x2CED, 2, 0x2CEC), (0x2CF2, 0x2CF2, 1, 0x2CF3), (0xA640, 0xA66C, 2, 0xA641),
   (0xA680, 0xA69A, 2, 0xA681), (0xA722, 0xA72E, 2, 0xA723), (0xA732, 0xA76E, 2, 0xA733),
   (0xA779, 0xA77B, 2, 0xA77A), (0xA77D, 0xA77D, 1, 0x1D79), (0xA77E, 0xA786, 2, 0xA77F),
   (0xA78B, 0xA78B, 1, 0xA78C), (0xA78D, 0xA78D, 1, 0x265), (0xA790, 0xA792, 2, 0xA791),
   (0xA796, 0xA7A8, 2, 0xA797), (0xA7AA, 0xA7AA, 1, 0x266), (0xA7AB, 0xA7AB, 1, 0x25C),
   (0xA7AC, 0xA7AC, 1, 0x261), (0xA7AD, 0xA7AD, 1, 0x26C), (0xA7AE, 0xA7AE, 1, 0x26A),
   (0xA7B0, 0xA7B0, 1, 0x29E), (0xA7B1, 0xA7B1, 1, 0x287), (0xA7B2, 0xA7B2, 1, 0x29D),
   (0xA7B3, 0xA7B3, 1, 0xAB53), (0xA7B4, 0xA7C2, 2, 0xA7B5), (0xA7C4, 0xA7C4, 1, 0xA794),
   (0xA7C5, 0xA7C5, 1, 0x282), (0xA7C6, 0xA7C6, 1, 0x1D8E), (0xA7C7, 0xA7C9, 2, 0xA7C8),
   (0xA7D0, 0xA7D0, 1, 0xA7D1), (0xA7D6, 0xA7D8, 2, 0xA7D7), (0xA7F5, 0xA7F5, 1, 0xA7F6),
   (0xFF21, 0xFF3A, 1, 0xFF41), (0x10400, 0x10427, 1, 0x10428), (0x104B0, 0x104D3, 1, 0x104D8),
   (0x10570, 0x10594, 2, 0x10597), (0x10571, 0x10579, 2, 0x10598),
   (0x1057D, 0x10589, 2, 0x105A4), (0x1058D, 0x10591, 2, 0x105B4),
   (0x10595, 0x10595, 1, 0x105BC), (0x10C80, 0x10CB2, 1, 0x10CC0),
   (0x118A0, 0x118BF, 1, 0x118C0), (0x16E40, 0x16E5F, 1, 0x16E60),
   (0x1E900, 0x1E921, 1, 0x1E922)]"

text \<open>\<^verbatim>\<open>sre_lower_unicode\<close> of \<^verbatim>\<open>_sre.c\<close>, which is \<^verbatim>\<open>Py_UNICODE_TOLOWER\<close>.\<close>

definition sre_lower_unicode :: "codepoint \<Rightarrow> codepoint" where
  "sre_lower_unicode c = (case run_lookup lower_runs c of Some l \<Rightarrow> l | None \<Rightarrow> c)"

subsection \<open>String methods\<close>

definition str_strip :: "str \<Rightarrow> str" where
  "str_strip s = rev (dropWhile py_isspace (rev (dropWhile py_isspace s)))"

definition str_upper :: "str \<Rightarrow> str" where
  "str_upper s = concat (map py_toupper_full s)"

text \<open>\<^verbatim>\<open>str.isdigit\<close>: every character is a digit and there is at least one.\<close>

definition str_isdigit :: "str \<Rightarrow> bool" where
  "str_isdigit s = (s \<noteq> [] \<and> list_all py_isdigit s)"

definition str_startswith :: "str \<Rightarrow> str \<Rightarrow> bool" where
  "str_startswith s prefix = (take (length prefix) s = prefix)"

definition str_endswith :: "str \<Rightarrow> str \<Rightarrow> bool" where
  "str_endswith s suffix = (length suffix \<le> length s \<and> drop (length s - length suffix) s = suffix)"

text \<open>
  The slices \<^verbatim>\<open>s[n:]\<close> and \<^verbatim>\<open>s[:-n]\<close> (for \<open>n > 0\<close>); neither raises, whatever the
  length of \<open>s\<close>.
\<close>

definition slice_from :: "nat \<Rightarrow> str \<Rightarrow> str" where
  "slice_from n s = drop n s"

definition slice_drop_last :: "nat \<Rightarrow> str \<Rightarrow> str" where
  "slice_drop_last n s = take (length s - n) s"

section \<open>Regular expressions\<close>

text \<open>
  The two patterns of the module as the \<^verbatim>\<open>re\<close> compiler emits them (its
  \<^verbatim>\<open>re.DEBUG\<close> listing), and the backtracking matcher of \<^verbatim>\<open>_sre\<close> on these
  operators. Under \<^verbatim>\<open>re.IGNORECASE\<close> a cased literal is compiled to
  \<^verbatim>\<open>LITERAL_UNI_IGNORE\<close> with its lowercase as the argument; a literal that has no
  case, and the category \<^verbatim>\<open>\d\<close>, are compiled as without the flag.
\<close>

datatype sre_atom =
    LITERAL codepoint
  | LITERAL_UNI_IGNORE codepoint
  | RANGE codepoint codepoint
  | CATEGORY_UNI_DIGIT

datatype sre =
    AT_BEGINNING
  | AT_END
  | ONE sre_atom
  | SEQ sre sre
  | BRANCH sre sre
  | MAX_REPEAT nat nat sre

fun atom_matches :: "sre_atom \<Rightarrow> codepoint \<Rightarrow> bool" where
  "atom_matches (LITERAL l) c = (c = l)"
| "atom_matches (LITERAL_UNI_IGNORE l) c = (sre_lower_unicode c = l)"
| "atom_matches (RANGE lo hi) c = (lo \<le> c \<and> c \<le> hi)"
| "atom_matches CATEGORY_UNI_DIGIT c = py_isdecimal c"

text \<open>
  A matcher state is the position reached and the rest of the subject. \<open>sre_run\<close>
  returns the states in which the operator can succeed, in the order the backtracking
  engine tries them (a greedy repeat tries the longest first). \<^verbatim>\<open>AT_END\<close> succeeds at
  the end of the subject and before a newline that ends it.
\<close>

type_synonym sre_state = "nat \<times> str"

fun sre_weight :: "sre \<Rightarrow> nat" where
  "sre_weight (SEQ a b) = Suc (sre_weight a + sre_weight b)"
| "sre_weight (BRANCH a b) = Suc (sre_weight a + sre_weight b)"
| "sre_weight (MAX_REPEAT lo hi r) = Suc hi * Suc (sre_weight r)"
| "sre_weight r = 0"

function sre_run :: "sre \<Rightarrow> sre_state \<Rightarrow> sre_state list" where
  "sre_run AT_BEGINNING (pos, s) = (if pos = 0 then [(pos, s)] else [])"
| "sre_run AT_END (pos, s) = (if s = [] \<or> s = [0xA] then [(pos, s)] else [])"
| "sre_run (ONE a) (pos, s) =
     (case s of [] \<Rightarrow> [] | c # cs \<Rightarrow> if atom_matches a c then [(Suc pos, cs)] else [])"
| "sre_run (SEQ a b) st = concat (map (sre_run b) (sre_run a st))"
| "sre_run (BRANCH a b) st = sre_run a st @ sre_run b st"
| "sre_run (MAX_REPEAT lo 0 r) st = (if lo = 0 then [st] else [])"
| "sre_run (MAX_REPEAT lo (Suc hi) r) st =
     concat (map (sre_run (MAX_REPEAT (lo - 1) hi r)) (sre_run r st)) @ (if lo = 0 then [st] else [])"
  by pat_completeness auto
termination
  by (relation "measure (\<lambda>(r, st). sre_weight r)") auto

text \<open>\<^verbatim>\<open>bool(pattern.match(s))\<close>: the match starts at position 0 of \<open>s\<close>.\<close>

definition re_match :: "sre \<Rightarrow> str \<Rightarrow> bool" where
  "re_match r s = (sre_run r (0, s) \<noteq> [])"

section \<open>The module\<close>

text \<open>\<^verbatim>\<open>_US_STOCK_PATTERN = re.compile(r'^[A-Z]{1,5}(\.[A-Z])?$')\<close>\<close>

definition US_STOCK_PATTERN :: sre where
  "US_STOCK_PATTERN =
     SEQ AT_BEGINNING
    (SEQ (SEQ (MAX_REPEAT 1 5 (ONE (RANGE 0x41 0x5A)))
              (MAX_REPEAT 0 1 (SEQ (ONE (LITERAL 0x2E)) (ONE (RANGE 0x41 0x5A)))))
     AT_END)"

text \<open>The display names of the US index table, as code points.\<close>

definition name_SP500 :: str where
  "name_SP500 = [0x6807, 0x666E, 0x35, 0x30, 0x30, 0x6307, 0x6570]"

definition name_DJI :: str where
  "name_DJI = [0x9053, 0x743C, 0x65AF, 0x5DE5, 0x4E1A, 0x6307, 0x6570]"

definition name_IXIC :: str where
  "name_IXIC = [0x7EB3, 0x65AF, 0x8FBE, 0x514B, 0x7EFC, 0x5408, 0x6307, 0x6570]"

definition name_NDX :: str where
  "name_NDX = [0x7EB3, 0x65AF, 0x8FBE, 0x514B, 0x31, 0x30, 0x30, 0x6307, 0x6570]"

definition name_VIX :: str where
  "name_VIX = [0x56, 0x49, 0x58, 0x6050, 0x614C, 0x6307, 0x6570]"

definition name_RUT :: str where
  "name_RUT = [0x7F57, 0x7D20, 0x32, 0x30, 0x30, 0x30, 0x6307, 0x6570]"

text \<open>A dict literal is the map of its items; \<open>dict_get\<close> is \<^verbatim>\<open>d.get(k, (None, None))\<close>.\<close>

definition US_INDEX_ITEMS :: "(str \<times> str \<times> str) list" where
  "US_INDEX_ITEMS =
    [(str_of ''SPX'', str_of ''^GSPC'', name_SP500),
     (str_of ''^GSPC'', str_of ''^GSPC'', name_SP500),
     (str_of ''GSPC'', str_of ''^GSPC'', name_SP500),
     (str_of ''DJI'', str_of ''^DJI'', name_DJI),
     (str_of ''^DJI'', str_of ''^DJI'', name_DJI),
     (str_of ''DJIA'', str_of ''^DJI'', name_DJI),
     (str_of ''IXIC'', str_of ''^IXIC'', name_IXIC),
     (str_of ''^IXIC'', str_of ''^IXIC'', name_IXIC),
     (str_of ''NASDAQ'', str_of ''^IXIC'', name_IXIC),
     (str_of ''NDX'', str_of ''^NDX'', name_NDX),
     (str_of ''^NDX'', str_of ''^NDX'', name_NDX),
     (str_of ''VIX'', str_of ''^VIX'', name_VIX),
     (str_of ''^VIX'', str_of ''^VIX'', name_VIX),
     (str_of ''RUT'', str_of ''^RUT'', name_RUT),
     (str_of ''^RUT'', str_of ''^RUT'', name_RUT)]"

definition US_INDEX_MAPPING :: "str \<rightharpoonup> str \<times> str" where
  "US_INDEX_MAPPING = map_of US_INDEX_ITEMS"

definition dict_contains :: "(str \<rightharpoonup> str \<times> str) \<Rightarrow> str \<Rightarrow> bool" where
  "dict_contains d k = (d k \<noteq> None)"

definition dict_get :: "(str \<rightharpoonup> str \<times> str) \<Rightarrow> str \<Rightarrow> str option \<times> str option" where
  "dict_get d k = (case d k of None \<Rightarrow> (None, None) | Some (symbol, name) \<Rightarrow> (Some symbol, Some name))"

text \<open>
  \<^verbatim>\<open>(code or '').strip().upper()\<close>, the first step of every function. The argument is
  a string or \<^verbatim>\<open>None\<close>; \<^verbatim>\<open>None\<close> and the empty string both stand for the empty string.
\<close>

definition normalize_code :: "str option \<Rightarrow> str" where
  "normalize_code code = str_upper (str_strip (case code of None \<Rightarrow> [] | Some s \<Rightarrow> s))"

definition is_us_index_code :: "str option \<Rightarrow> bool" where
  "is_us_index_code code = dict_contains US_INDEX_MAPPING (normalize_code code)"

definition is_us_stock_code :: "str option \<Rightarrow> bool" where
  "is_us_stock_code code =
     (let normalized = normalize_code code in
      if dict_contains US_INDEX_MAPPING normalized then False
      else re_match US_STOCK_PATTERN normalized)"

definition get_us_index_yf_symbol :: "str option \<Rightarrow> str option \<times> str option" where
  "get_us_index_yf_symbol code = (let normalized = normalize_code code in dict_get US_INDEX_MAPPING normalized)"

text \<open>\<^verbatim>\<open>_JP_STOCK_PATTERN = re.compile(r'^(JP\d{4}|\d{4}(\.T)?)$', re.IGNORECASE)\<close>\<close>

definition JP_STOCK_PATTERN :: sre where
  "JP_STOCK_PATTERN =
     SEQ AT_BEGINNING
    (SEQ (BRANCH
            (SEQ (ONE (LITERAL_UNI_IGNORE 0x6A))
            (SEQ (ONE (LITERAL_UNI_IGNORE 0x70))
                 (MAX_REPEAT 4 4 (ONE CATEGORY_UNI_DIGIT))))
            (SEQ (MAX_REPEAT 4 4 (ONE CATEGORY_UNI_DIGIT))
                 (MAX_REPEAT 0 1 (SEQ (ONE (LITERAL 0x2E)) (ONE (LITERAL_UNI_IGNORE 0x74))))))
     AT_END)"

definition name_N225 :: str where
  "name_N225 = [0x65E5, 0x7ECF, 0x32, 0x32, 0x35, 0x6307, 0x6570]"

definition name_TOPIX :: str where
  "name_TOPIX = [0x4E1C, 0x8BC1, 0x6307, 0x6570]"

definition JP_INDEX_ITEMS :: "(str \<times> str \<times> str) list" where
  "JP_INDEX_ITEMS =
    [(str_of ''N225'', str_of ''^N225'', name_N225),
     (str_of ''^N225'', str_of ''^N225'', name_N225),
     (str_of ''NIKKEI'', str_of ''^N225'', name_N225),
     (str_of ''TOPIX'', str_of ''^TOPX'', name_TOPIX),
     (str_of ''^TOPX'', str_of ''^TOPX'', name_TOPIX)]"

definition JP_INDEX_MAPPING :: "str \<rightharpoonup> str \<times> str" where
  "JP_INDEX_MAPPING = map_of JP_INDEX_ITEMS"

definition is_jp_stock_code :: "str option \<Rightarrow> bool" where
  "is_jp_stock_code code = re_match JP_STOCK_PATTERN (normalize_code code)"

definition get_jp_stock_yf_symbol :: "str option \<Rightarrow> str option \<times> str option" where
  "get_jp_stock_yf_symbol code =
     (let normalized = normalize_code code in
      if str_startswith normalized (str_of ''JP'') \<and> length normalized = 6
         \<and> str_isdigit (slice_from 2 normalized)
      then (Some (slice_from 2 normalized @ str_of ''.T''), None)
      else if str_endswith normalized (str_of ''.T'') \<and> str_isdigit (slice_drop_last 2 normalized)
         \<and> length (slice_drop_last 2 normalized) = 4
      then (Some normalized, None)
      else if str_isdigit normalized \<and> length normalized = 4
      then (Some (normalized @ str_of ''.T''), None)
      else (None, None))"

definition is_jp_index_code :: "str option \<Rightarrow> bool" where
  "is_jp_index_code code = dict_contains JP_INDEX_MAPPING (normalize_code code)"

definition get_jp_index_yf_symbol :: "str option \<Rightarrow> str option \<times> str option" where
  "get_jp_index_yf_symbol code = dict_get JP_INDEX_MAPPING (normalize_code code)"

subsection \<open>Arguments that are not strings\<close>

text \<open>
  The annotation \<^verbatim>\<open>code: str\<close> is not enforced: a caller can pass any object. The values
  considered here are \<^verbatim>\<open>None\<close>, a string and an integer. Every function reads its argument
  once, in \<^verbatim>\<open>(code or '').strip()\<close>.

  \<^verbatim>\<open>code or ''\<close> is \<^verbatim>\<open>code\<close> when \<^verbatim>\<open>code\<close> is truthy and \<^verbatim>\<open>''\<close> otherwise; \<^verbatim>\<open>None\<close>, the empty
  string and the integer 0 are the falsy values.
\<close>

datatype py_value = PyNone | PyStr str | PyInt int

datatype py_error = AttributeError

definition py_truthy :: "py_value \<Rightarrow> bool" where
  "py_truthy v = (case v of PyNone \<Rightarrow> False | PyStr s \<Rightarrow> s \<noteq> [] | PyInt i \<Rightarrow> i \<noteq> 0)"

definition code_or_empty :: "py_value \<Rightarrow> py_value" where
  "code_or_empty code = (if py_truthy code then code else PyStr [])"

text \<open>
  The attribute \<^verbatim>\<open>strip\<close> is looked up on the value of \<^verbatim>\<open>code or ''\<close>: a string has it, an
  integer and \<^verbatim>\<open>None\<close> raise \<^verbatim>\<open>AttributeError\<close>.
\<close>

definition strip_receiver :: "py_value \<Rightarrow> py_error + str" where
  "strip_receiver v =
     (case v of PyStr s \<Rightarrow> Inr s | PyNone \<Rightarrow> Inl AttributeError | PyInt i \<Rightarrow> Inl AttributeError)"

text \<open>
  A call of one of the seven functions on any value: it raises at \<^verbatim>\<open>.strip()\<close>, or it goes on
  with the string that \<^verbatim>\<open>code or ''\<close> gave, on which no later step raises.
\<close>

definition py_call :: "(str option \<Rightarrow> 'a) \<Rightarrow> py_value \<Rightarrow> py_error + 'a" where
  "py_call f code =
     (case strip_receiver (code_or_empty code) of Inl e \<Rightarrow> Inl e | Inr s \<Rightarrow> Inr (f (Some s)))"

section \<open>The specification's words\<close>

text \<open>
  The definitions of this section are written from the specification, not from the source;
  the claims compare them with the functions of the module.

  The US stock pattern: one to five uppercase letters, optionally followed by a dot and a
  single letter, as the whole string.
\<close>

definition is_upper_AZ :: "codepoint \<Rightarrow> bool" where
  "is_upper_AZ c = (0x41 \<le> c \<and> c \<le> 0x5A)"

definition us_stock_shape :: "str \<Rightarrow> bool" where
  "us_stock_shape s =
     (\<exists>letters suffix. s = letters @ suffix \<and> 1 \<le> length letters \<and> length letters \<le> 5
        \<and> list_all is_upper_AZ letters
        \<and> (suffix = [] \<or> (\<exists>x. is_upper_AZ x \<and> suffix = [0x2E, x])))"

text \<open>
  The Japan stock pattern with the three cased letters left open: \<open>JP_STOCK_PATTERN\<close> is
  \<open>jp_pattern\<close> of the three \<^verbatim>\<open>LITERAL_UNI_IGNORE\<close> atoms, the pattern compiled without the flag
  is \<open>jp_pattern\<close> of the three \<^verbatim>\<open>LITERAL\<close> atoms.
\<close>

definition jp_pattern :: "sre_atom \<Rightarrow> sre_atom \<Rightarrow> sre_atom \<Rightarrow> sre" where
  "jp_pattern aj ap at =
     SEQ AT_BEGINNING
    (SEQ (BRANCH
            (SEQ (ONE aj) (SEQ (ONE ap) (MAX_REPEAT 4 4 (ONE CATEGORY_UNI_DIGIT))))
            (SEQ (MAX_REPEAT 4 4 (ONE CATEGORY_UNI_DIGIT))
                 (MAX_REPEAT 0 1 (SEQ (ONE (LITERAL 0x2E)) (ONE at)))))
     AT_END)"

text \<open>
  The Japan stock shape: four decimal digits, four decimal digits and \<open>.T\<close>, or \<open>JP\<close> and
  four decimal digits, as the whole string; \<open>J\<close>, \<open>P\<close> and \<open>T\<close> say which characters
  count as the three letters.
\<close>

definition jp_stock_shape :: "(codepoint \<Rightarrow> bool) \<Rightarrow> (codepoint \<Rightarrow> bool) \<Rightarrow> (codepoint \<Rightarrow> bool) \<Rightarrow> str \<Rightarrow> bool" where
  "jp_stock_shape J P T s =
     (\<exists>d. length d = 4 \<and> list_all py_isdecimal d \<and>
        ((\<exists>j p. J j \<and> P p \<and> s = j # p # d) \<or> s = d \<or> (\<exists>t. T t \<and> s = d @ [0x2E, t])))"

text \<open>
  The four steps of \<open>get_jp_stock_yf_symbol\<close> on a normalized code \<open>n\<close>, in the order the
  specification lists them. A digit is a decimal digit, as in the Japan stock shape.
\<close>

definition jp_symbol_steps :: "str \<Rightarrow> str option \<times> str option" where
  "jp_symbol_steps n =
     (if take 2 n = str_of ''JP'' \<and> length n = 6 \<and> list_all py_isdecimal (drop 2 n)
      then (Some (drop 2 n @ str_of ''.T''), None)
      else if (\<exists>d. n = d @ str_of ''.T'' \<and> length d = 4 \<and> list_all py_isdecimal d)
      then (Some n, None)
      else if length n = 4 \<and> list_all py_isdecimal n
      then (Some (n @ str_of ''.T''), None)
      else (None, None))"

text \<open>
  The variants of a key of an index table: any of its letters in lower case
  (\<open>case_variant\<close>), and white space before and after (\<open>padded_variant\<close>).
\<close>

definition ascii_lower :: "codepoint \<Rightarrow> codepoint" where
  "ascii_lower c = (if 0x41 \<le> c \<and> c \<le> 0x5A then c + 0x20 else c)"

definition case_variant :: "str \<Rightarrow> str \<Rightarrow> bool" where
  "case_variant key v = list_all2 (\<lambda>k c. c = k \<or> c = ascii_lower k) key v"

definition padded_variant :: "str \<Rightarrow> str \<Rightarrow> bool" where
  "padded_variant v code = (\<exists>l r. code = l @ v @ r \<and> list_all py_isspace l \<and> list_all py_isspace r)"

text \<open>What every character of a key of the US index table is.\<close>

definition key_char :: "codepoint \<Rightarrow> bool" where
  "key_char c = (c \<le> 0x7F \<and> \<not> (0x61 \<le> c \<and> c \<le> 0x7A) \<and> \<not> py_isspace c)"

text \<open>
  \<^verbatim>\<open>re.compile(r'^(JP\d{4}|\d{4}(\.T)?)$')\<close>, the Japan stock pattern compiled without
  \<^verbatim>\<open>re.IGNORECASE\<close>: the letters are plain \<^verbatim>\<open>LITERAL\<close> atoms.
\<close>

definition JP_STOCK_PATTERN_CASE_SENSITIVE :: sre where
  "JP_STOCK_PATTERN_CASE_SENSITIVE =
     SEQ AT_BEGINNING
    (SEQ (BRANCH
            (SEQ (ONE (LITERAL 0x4A))
            (SEQ (ONE (LITERAL 0x50))
                 (MAX_REPEAT 4 4 (ONE CATEGORY_UNI_DIGIT))))
            (SEQ (MAX_REPEAT 4 4 (ONE CATEGORY_UNI_DIGIT))
                 (MAX_REPEAT 0 1 (SEQ (ONE (LITERAL 0x2E)) (ONE (LITERAL 0x54))))))
     AT_END)"

section \<open>Checking the case mapping tables\<close>

text \<open>
  Facts about \<^verbatim>\<open>str.upper\<close> on every code point (it never produces white space, it is
  idempotent) are read off the tables by a checker that is proved sound below. The
  tables are cut into blocks with the bounds of the code points each block maps, so that
  a whole block is skipped with two comparisons.
\<close>

definition upper_run_blocks :: "(codepoint \<times> codepoint \<times> case_run list) list" where
  "upper_run_blocks =
  [(0x61, 0x180, upper_runs_1), (0x183, 0x1B6, upper_runs_2), (0x1B9, 0x1F2, upper_runs_3),
   (0x1F3, 0x254, upper_runs_4), (0x256, 0x26B, upper_runs_5), (0x26C, 0x28B, upper_runs_6),
   (0x28C, 0x3CB, upper_runs_7), (0x3CC, 0x3F5, upper_runs_8), (0x3F8, 0x13FD, upper_runs_9),
   (0x1C80, 0x1E9B, upper_runs_10), (0x1EA1, 0x1F7B, upper_runs_11),
   (0x1F7C, 0x2C65, upper_runs_12), (0x2C66, 0xA72F, upper_runs_13),
   (0xA733, 0xAB53, upper_runs_14), (0xAB70, 0x1E943, upper_runs_15)]"

text \<open>A character with a special uppercase, as the run of one code point it is mapped on.\<close>

fun key_run :: "codepoint \<times> codepoint list \<Rightarrow> case_run" where
  "key_run (k, u) = (k, k, 1, k)"

definition upper_key_blocks :: "(codepoint \<times> codepoint \<times> case_run list) list" where
  "upper_key_blocks =
  [(0xDF, 0x1F52, map key_run upper_special_1), (0x1F54, 0x1F8A, map key_run upper_special_2),
   (0x1F8B, 0x1F97, map key_run upper_special_3), (0x1F98, 0x1FA4, map key_run upper_special_4),
   (0x1FA5, 0x1FB3, map key_run upper_special_5), (0x1FB4, 0x1FD6, map key_run upper_special_6),
   (0x1FD7, 0xFB00, map key_run upper_special_7), (0xFB01, 0xFB17, map key_run upper_special_8)]"

fun range_run :: "codepoint \<times> codepoint \<Rightarrow> case_run" where
  "range_run (a, b) = (a, b, 1, a)"

definition whitespace_blocks :: "(codepoint \<times> codepoint \<times> case_run list) list" where
  "whitespace_blocks = [(0x9, 0x3000, map range_run whitespace_ranges)]"

text \<open>The letters \<open>j\<close>, \<open>p\<close> and \<open>t\<close>, which the Japan stock pattern matches ignoring case.\<close>

definition jpt_blocks :: "(codepoint \<times> codepoint \<times> case_run list) list" where
  "jpt_blocks = [(0x6A, 0x74, map range_run [(0x6A, 0x6A), (0x70, 0x70), (0x74, 0x74)])]"

definition runs_of_blocks :: "(codepoint \<times> codepoint \<times> case_run list) list \<Rightarrow> case_run list" where
  "runs_of_blocks bs = concat (map (\<lambda>(blo, bhi, rs). rs) bs)"

definition blocks_ok :: "(codepoint \<times> codepoint \<times> case_run list) list \<Rightarrow> bool" where
  "blocks_ok bs =
     list_all (\<lambda>(blo, bhi, rs). list_all (\<lambda>(lo, hi, step, tgt). blo \<le> lo \<and> hi \<le> bhi) rs) bs"

text \<open>
  \<open>pair_ok ilo ihi step d\<close>: no code point \<open>ilo, ilo + step, \<dots>\<close> up to \<open>ihi\<close> (only
  \<open>ilo\<close> when \<open>step\<close> is 0) is mapped by the run \<open>d\<close>.
\<close>

fun pair_ok :: "codepoint \<Rightarrow> codepoint \<Rightarrow> nat \<Rightarrow> case_run \<Rightarrow> bool" where
  "pair_ok ilo ihi step (lo', hi', step', tgt') =
     (if hi' < ilo then True
      else if ihi < lo' then True
      else if lo' = hi' then \<not> step dvd (lo' - ilo)
      else step' dvd step \<and> ilo mod step' \<noteq> lo' mod step')"

fun block_ok :: "codepoint \<Rightarrow> codepoint \<Rightarrow> nat \<Rightarrow> codepoint \<times> codepoint \<times> case_run list \<Rightarrow> bool" where
  "block_ok ilo ihi step (blo, bhi, rs) =
     (if bhi < ilo then True
      else if ihi < blo then True
      else list_all (pair_ok ilo ihi step) rs)"

definition img_avoids ::
  "(codepoint \<times> codepoint \<times> case_run list) list \<Rightarrow> codepoint \<Rightarrow> codepoint \<Rightarrow> nat \<Rightarrow> bool" where
  "img_avoids bs ilo ihi step = list_all (block_ok ilo ihi step) bs"

fun run_image_avoids :: "(codepoint \<times> codepoint \<times> case_run list) list \<Rightarrow> case_run \<Rightarrow> bool" where
  "run_image_avoids bs (lo, hi, step, tgt) =
     img_avoids bs tgt (tgt + (hi - lo)) (if lo = hi then 0 else step)"

definition upper_values_avoid :: "(codepoint \<times> codepoint \<times> case_run list) list \<Rightarrow> bool" where
  "upper_values_avoid bs =
     (list_all (run_image_avoids bs) upper_runs \<and>
      list_all (\<lambda>(k, u). list_all (\<lambda>y. img_avoids bs y y 0) u) upper_special)"

definition upper_fixed :: "codepoint \<Rightarrow> bool" where
  "upper_fixed c = (list_all (\<lambda>d. \<not> in_run d c) upper_runs \<and> list_all (\<lambda>d. \<not> in_run d c) (map key_run upper_special))"

section \<open>Soundness of the table checker\<close>

lemma pair_ok_sound:
  assumes ok: "pair_ok ilo ihi step d" and y: "ilo \<le> y" "y \<le> ihi" "step dvd (y - ilo)"
  shows "\<not> in_run d y"
proof
  obtain lo' hi' step' tgt' where d: "d = (lo', hi', step', tgt')"
    by (cases d) auto
  assume "in_run d y"
  with d have r: "lo' \<le> y" "y \<le> hi'" "step' dvd (y - lo')"
    by (auto simp: dvd_eq_mod_eq_0)
  show False
  proof (cases "lo' = hi'")
    case True
    with r have "y = lo'" by simp
    with ok d y r True show False by (auto split: if_splits)
  next
    case False
    with ok d y r have s: "step' dvd step" and ne: "ilo mod step' \<noteq> lo' mod step'"
      by (auto split: if_splits)
    from s y(3) have "step' dvd (y - ilo)" by (rule dvd_trans)
    with y(1) have "y mod step' = ilo mod step'" by (simp add: mod_eq_dvd_iff_nat)
    moreover from r have "y mod step' = lo' mod step'" by (simp add: mod_eq_dvd_iff_nat)
    ultimately show False using ne by simp
  qed
qed

lemma img_avoids_sound:
  assumes bs: "blocks_ok bs" and av: "img_avoids bs ilo ihi step"
    and y: "ilo \<le> y" "y \<le> ihi" "step dvd (y - ilo)"
    and d: "d \<in> set (runs_of_blocks bs)"
  shows "\<not> in_run d y"
proof -
  from d obtain blo bhi rs where b: "(blo, bhi, rs) \<in> set bs" and drs: "d \<in> set rs"
    by (auto simp: runs_of_blocks_def)
  obtain lo' hi' step' tgt' where dd: "d = (lo', hi', step', tgt')"
    by (cases d) auto
  from bs b drs dd have bounds: "blo \<le> lo'" "hi' \<le> bhi"
    by (auto simp: blocks_ok_def list_all_iff)
  from av b have blk: "block_ok ilo ihi step (blo, bhi, rs)"
    unfolding img_avoids_def list_all_iff by blast
  show ?thesis
  proof (cases "bhi < ilo \<or> ihi < blo")
    case True
    with bounds y dd show ?thesis by auto
  next
    case False
    with blk have "list_all (pair_ok ilo ihi step) rs" by simp
    with drs have "pair_ok ilo ihi step d" unfolding list_all_iff by blast
    then show ?thesis using y by (rule pair_ok_sound)
  qed
qed

lemma run_image_avoids_sound:
  assumes bs: "blocks_ok bs" and av: "run_image_avoids bs r" and c: "in_run r c"
    and d: "d \<in> set (runs_of_blocks bs)"
  shows "\<not> in_run d (run_target r c)"
proof -
  obtain lo hi step tgt where r: "r = (lo, hi, step, tgt)"
    by (cases r) auto
  from c r have cc: "lo \<le> c" "c \<le> hi" "step dvd (c - lo)"
    by (auto simp: dvd_eq_mod_eq_0)
  from av r have a: "img_avoids bs tgt (tgt + (hi - lo)) (if lo = hi then 0 else step)"
    by simp
  have "(if lo = hi then 0 else step) dvd (tgt + (c - lo) - tgt)"
    using cc by auto
  moreover have "tgt \<le> tgt + (c - lo)" "tgt + (c - lo) \<le> tgt + (hi - lo)"
    using cc by auto
  ultimately have "\<not> in_run d (tgt + (c - lo))"
    using img_avoids_sound [OF bs a _ _ _ d] by blast
  with r show ?thesis by simp
qed

subsection \<open>The tables, checked\<close>

lemmas run_chunks = upper_runs_1_def upper_runs_2_def upper_runs_3_def upper_runs_4_def upper_runs_5_def
  upper_runs_6_def upper_runs_7_def upper_runs_8_def upper_runs_9_def upper_runs_10_def
  upper_runs_11_def upper_runs_12_def upper_runs_13_def upper_runs_14_def upper_runs_15_def

lemmas special_chunks = upper_special_1_def upper_special_2_def upper_special_3_def upper_special_4_def
  upper_special_5_def upper_special_6_def upper_special_7_def upper_special_8_def

lemmas chunk_all = run_chunks [THEN arg_cong [where f = "list_all P" for P]]
  special_chunks [THEN arg_cong [where f = "list_all P" for P]]

lemmas table_check = upper_values_avoid_def upper_runs_def upper_special_def upper_run_blocks_def
  upper_key_blocks_def whitespace_blocks_def jpt_blocks_def img_avoids_def chunk_all list.pred_map
  comp_def whitespace_ranges_def blocks_ok_def

lemma ok_runs: "blocks_ok upper_run_blocks"
  by (simp add: table_check)
lemma ok_keys: "blocks_ok upper_key_blocks"
  by (simp add: table_check)
lemma ok_ws: "blocks_ok whitespace_blocks"
  by (simp add: table_check)
lemma ok_jpt: "blocks_ok jpt_blocks"
  by (simp add: table_check)
lemma avoid_runs: "upper_values_avoid upper_run_blocks"
  by (simp add: table_check)
lemma avoid_keys: "upper_values_avoid upper_key_blocks"
  by (simp add: table_check)
lemma avoid_ws: "upper_values_avoid whitespace_blocks"
  by (simp add: table_check)
lemma avoid_jpt: "upper_values_avoid jpt_blocks"
  by (simp add: table_check)
lemma ws_unmapped: "list_all (\<lambda>(a, b). img_avoids upper_run_blocks a b 1 \<and> img_avoids upper_key_blocks a b 1) whitespace_ranges"
  by (simp add: table_check)
lemma lower_jpt: "list_all (\<lambda>r. r = (0x41, 0x5A, 1, 0x61) \<or> run_image_avoids jpt_blocks r) lower_runs"
  by (simp add: lower_runs_def table_check)
lemma special_nonempty: "list_all (\<lambda>(k, u). u \<noteq> []) upper_special"
  by (simp add: table_check)

lemma runs_of_run_blocks: "runs_of_blocks upper_run_blocks = upper_runs"
  by (simp add: runs_of_blocks_def upper_run_blocks_def upper_runs_def)

lemma runs_of_key_blocks: "runs_of_blocks upper_key_blocks = map key_run upper_special"
  by (simp add: runs_of_blocks_def upper_key_blocks_def upper_special_def)

subsection \<open>The uppercase of a character\<close>

lemma run_lookup_None: "run_lookup rs c = None \<longleftrightarrow> list_all (\<lambda>d. \<not> in_run d c) rs"
proof -
  have "run_lookup rs c = None \<longleftrightarrow> find (\<lambda>r. in_run r c) rs = None"
    by (simp add: run_lookup_def)
  also have "\<dots> \<longleftrightarrow> (\<forall>d \<in> set rs. \<not> in_run d c)"
    unfolding find_None_iff by blast
  finally show ?thesis by (simp only: list_all_iff)
qed

lemma run_lookup_Some:
  assumes "run_lookup rs c = Some y"
  shows "\<exists>r \<in> set rs. in_run r c \<and> y = run_target r c"
proof -
  from assms obtain r where "find (\<lambda>r. in_run r c) rs = Some r" "y = run_target r c"
    by (auto simp: run_lookup_def)
  then show ?thesis by (auto simp: find_Some_iff)
qed

lemma in_key_run: "in_run (key_run kv) c \<longleftrightarrow> c = fst kv"
  by (cases kv) auto

lemma map_of_key_runs:
  assumes "list_all (\<lambda>d. \<not> in_run d c) (map key_run kvs)"
  shows "map_of kvs c = None"
proof -
  from assms have "c \<notin> fst ` set kvs"
    by (auto simp: list_all_iff in_key_run)
  then show ?thesis by (simp add: map_of_eq_None_iff)
qed

lemma upper_fixed_toupper:
  assumes "upper_fixed c"
  shows "py_toupper_full c = [c]"
proof -
  from assms have "map_of upper_special c = None" "run_lookup upper_runs c = None"
    by (simp_all add: upper_fixed_def map_of_key_runs run_lookup_None)
  then show ?thesis by (simp add: py_toupper_full_def)
qed

lemma toupper_cases:
  obtains (fixed) "py_toupper_full c = [c]"
  | (special) u where "(c, u) \<in> set upper_special" "py_toupper_full c = u"
  | (run) r where "r \<in> set upper_runs" "in_run r c" "py_toupper_full c = [run_target r c]"
proof (cases "map_of upper_special c")
  case (Some u)
  then have "(c, u) \<in> set upper_special" by (rule map_of_SomeD)
  moreover from Some have "py_toupper_full c = u" by (simp add: py_toupper_full_def)
  ultimately show ?thesis by (rule special)
next
  case None
  show ?thesis
  proof (cases "run_lookup upper_runs c")
    case n: None
    with None show ?thesis by (intro fixed) (simp add: py_toupper_full_def)
  next
    case (Some y)
    then obtain r where "r \<in> set upper_runs" "in_run r c" "y = run_target r c"
      by (blast dest: run_lookup_Some)
    moreover from None Some have "py_toupper_full c = [y]" by (simp add: py_toupper_full_def)
    ultimately show ?thesis by (intro run) auto
  qed
qed

lemma values_avoid:
  assumes bs: "blocks_ok bs" and av: "upper_values_avoid bs"
    and y: "y \<in> set (py_toupper_full c)"
    and d: "d \<in> set (runs_of_blocks bs)" "in_run d y"
  shows "py_toupper_full c = [c]"
proof (cases c rule: toupper_cases)
  case fixed
  then show ?thesis .
next
  case (special u)
  with av y have "img_avoids bs y y 0"
    by (auto simp: upper_values_avoid_def list_all_iff)
  from img_avoids_sound [OF bs this _ _ _ d(1), of y] d(2) show ?thesis by simp
next
  case (run r)
  with av have "run_image_avoids bs r"
    by (auto simp: upper_values_avoid_def list_all_iff)
  from run_image_avoids_sound [OF bs this run(2) d(1)] run(3) y d(2) show ?thesis by simp
qed

lemma toupper_value_fixed:
  assumes "y \<in> set (py_toupper_full c)"
  shows "py_toupper_full y = [y]"
proof (cases "py_toupper_full c = [c]")
  case True
  with assms show ?thesis by simp
next
  case False
  have "\<not> in_run d y" if "d \<in> set upper_runs" for d
    using values_avoid [OF ok_runs avoid_runs assms, of d] that False
    by (auto simp: runs_of_run_blocks)
  moreover have "\<not> in_run d y" if "d \<in> set (map key_run upper_special)" for d
    using values_avoid [OF ok_keys avoid_keys assms, of d] that False
    by (auto simp: runs_of_key_blocks)
  ultimately have "upper_fixed y"
    unfolding upper_fixed_def list_all_iff by blast
  then show ?thesis by (rule upper_fixed_toupper)
qed

lemma toupper_nonempty: "py_toupper_full c \<noteq> []"
proof (cases c rule: toupper_cases)
  case (special u)
  with special_nonempty show ?thesis by (auto simp: list_all_iff)
qed simp_all

lemma in_range_run: "in_run (range_run ab) y \<longleftrightarrow> fst ab \<le> y \<and> y \<le> snd ab"
  by (cases ab) auto

lemma in_ranges_runs: "in_ranges rs y \<longleftrightarrow> (\<exists>d \<in> set (map range_run rs). in_run d y)"
  by (induction rs) (auto simp: in_ranges_def in_range_run)

lemma isspace_runs: "py_isspace y \<longleftrightarrow> (\<exists>d \<in> set (runs_of_blocks whitespace_blocks). in_run d y)"
  by (simp add: py_isspace_def in_ranges_runs runs_of_blocks_def whitespace_blocks_def)

lemma toupper_space:
  assumes "y \<in> set (py_toupper_full c)" "py_isspace y"
  shows "py_toupper_full c = [c]"
  using assms values_avoid [OF ok_ws avoid_ws] by (auto simp: isspace_runs)

lemma space_fixed:
  assumes "py_isspace w"
  shows "py_toupper_full w = [w]"
proof -
  from assms obtain a b where ab: "(a, b) \<in> set whitespace_ranges" "a \<le> w" "w \<le> b"
    by (auto simp: py_isspace_def in_ranges_def list_ex_iff)
  with ws_unmapped have av: "img_avoids upper_run_blocks a b 1" "img_avoids upper_key_blocks a b 1"
    by (auto simp: list_all_iff)
  have "\<not> in_run d w" if "d \<in> set upper_runs" for d
    using img_avoids_sound [OF ok_runs av(1) ab(2,3), of d] that by (simp add: runs_of_run_blocks)
  moreover have "\<not> in_run d w" if "d \<in> set (map key_run upper_special)" for d
    using img_avoids_sound [OF ok_keys av(2) ab(2,3), of d] that by (simp add: runs_of_key_blocks)
  ultimately have "upper_fixed w"
    unfolding upper_fixed_def list_all_iff by blast
  then show ?thesis by (rule upper_fixed_toupper)
qed

subsection \<open>Strings: strip and upper\<close>

lemma strip_ends:
  assumes "str_strip s \<noteq> []"
  shows "\<not> py_isspace (hd (str_strip s))" and "\<not> py_isspace (last (str_strip s))"
proof -
  define t where "t = dropWhile py_isspace s"
  define u where "u = dropWhile py_isspace (rev t)"
  from assms have u: "u \<noteq> []" and s: "str_strip s = rev u"
    by (simp_all add: str_strip_def t_def u_def)
  from u have "\<not> py_isspace (hd u)" unfolding u_def by (rule hd_dropWhile)
  with u s show "\<not> py_isspace (last (str_strip s))" by (simp add: last_rev)
  from u have t: "t \<noteq> []" by (auto simp: u_def)
  have "rev t = takeWhile py_isspace (rev t) @ u" by (simp add: u_def)
  with u have "last (rev t) = last u" by (metis last_appendR)
  with t have "last u = hd t" by (simp add: last_rev)
  moreover from t have "\<not> py_isspace (hd t)" unfolding t_def by (rule hd_dropWhile)
  ultimately show "\<not> py_isspace (hd (str_strip s))" using u s by (simp add: hd_rev)
qed

lemma strip_id:
  assumes "s \<noteq> [] \<Longrightarrow> \<not> py_isspace (hd s) \<and> \<not> py_isspace (last s)"
  shows "str_strip s = s"
proof (cases "s = []")
  case True
  then show ?thesis by (simp add: str_strip_def)
next
  case False
  with assms have "dropWhile py_isspace s = s" "dropWhile py_isspace (rev s) = rev s"
    by (simp_all add: dropWhile_eq_self_iff hd_rev)
  then show ?thesis by (simp add: str_strip_def)
qed

lemma upper_append: "str_upper (a @ b) = str_upper a @ str_upper b"
  by (simp add: str_upper_def)

lemma upper_Nil_iff: "str_upper s = [] \<longleftrightarrow> s = []"
  by (cases s) (simp_all add: str_upper_def toupper_nonempty)

lemma upper_fixed_chars:
  assumes "\<And>y. y \<in> set ys \<Longrightarrow> py_toupper_full y = [y]"
  shows "str_upper ys = ys"
  using assms by (induction ys) (simp_all add: str_upper_def)

lemma upper_idem: "str_upper (str_upper s) = str_upper s"
proof (induction s)
  case Nil
  show ?case by (simp add: str_upper_def)
next
  case (Cons c s)
  have "str_upper (py_toupper_full c) = py_toupper_full c"
    by (rule upper_fixed_chars) (rule toupper_value_fixed)
  moreover have "str_upper (c # s) = py_toupper_full c @ str_upper s"
    by (simp add: str_upper_def)
  ultimately show ?case using Cons by (simp add: upper_append)
qed

lemma toupper_hd_last:
  assumes "\<not> py_isspace c"
  shows "\<not> py_isspace (hd (py_toupper_full c))" and "\<not> py_isspace (last (py_toupper_full c))"
proof -
  have ne: "py_toupper_full c \<noteq> []" by (rule toupper_nonempty)
  then have "hd (py_toupper_full c) \<in> set (py_toupper_full c)"
    "last (py_toupper_full c) \<in> set (py_toupper_full c)" by simp_all
  with assms toupper_space [of _ c]
  show "\<not> py_isspace (hd (py_toupper_full c))" "\<not> py_isspace (last (py_toupper_full c))"
    by fastforce+
qed

lemma upper_ends:
  assumes "s \<noteq> []" "\<not> py_isspace (hd s)" "\<not> py_isspace (last s)"
  shows "\<not> py_isspace (hd (str_upper s))" and "\<not> py_isspace (last (str_upper s))"
proof -
  from assms(1) obtain c cs where s: "s = c # cs" by (cases s) auto
  then have "hd (str_upper s) = hd (py_toupper_full c)"
    by (simp add: str_upper_def toupper_nonempty)
  with assms(2) s show "\<not> py_isspace (hd (str_upper s))"
    by (simp add: toupper_hd_last)
  from assms(1) have "s = butlast s @ [last s]" by simp
  then have "str_upper s = str_upper (butlast s) @ py_toupper_full (last s)"
    by (metis upper_append str_upper_def concat.simps list.simps(8,9) append_Nil2)
  then have "last (str_upper s) = last (py_toupper_full (last s))"
    by (simp add: toupper_nonempty)
  with assms(3) show "\<not> py_isspace (last (str_upper s))"
    by (simp add: toupper_hd_last)
qed

lemma normalize_ends:
  assumes "normalize_code code \<noteq> []"
  shows "\<not> py_isspace (hd (normalize_code code))" and "\<not> py_isspace (last (normalize_code code))"
proof -
  define s where "s = str_strip (case code of None \<Rightarrow> [] | Some s \<Rightarrow> s)"
  from assms have "s \<noteq> []" by (auto simp: normalize_code_def s_def upper_Nil_iff)
  then have "\<not> py_isspace (hd s)" "\<not> py_isspace (last s)"
    unfolding s_def by (rule strip_ends)+
  with \<open>s \<noteq> []\<close> show "\<not> py_isspace (hd (normalize_code code))" "\<not> py_isspace (last (normalize_code code))"
    by (simp_all add: normalize_code_def s_def [symmetric] upper_ends)
qed

lemma normalize_idem: "normalize_code (Some (normalize_code code)) = normalize_code code"
proof -
  have "str_strip (normalize_code code) = normalize_code code"
    by (rule strip_id) (simp add: normalize_ends)
  moreover have "str_upper (normalize_code code) = normalize_code code"
    by (simp add: normalize_code_def upper_idem)
  ultimately show ?thesis by (simp add: normalize_code_def)
qed

subsection \<open>The matcher\<close>

lemma run_ONE_iff:
  "st' \<in> set (sre_run (ONE a) (p, s)) \<longleftrightarrow> (\<exists>c cs. s = c # cs \<and> atom_matches a c \<and> st' = (Suc p, cs))"
  by (cases s) auto

lemma run_SEQ_iff:
  "st' \<in> set (sre_run (SEQ a b) st) \<longleftrightarrow> (\<exists>m \<in> set (sre_run a st). st' \<in> set (sre_run b m))"
  by auto

lemma run_BRANCH_iff:
  "st' \<in> set (sre_run (BRANCH a b) st) \<longleftrightarrow> st' \<in> set (sre_run a st) \<or> st' \<in> set (sre_run b st)"
  by auto

lemma run_OPT_iff:
  "st' \<in> set (sre_run (MAX_REPEAT 0 1 r) st) \<longleftrightarrow> st' \<in> set (sre_run r st) \<or> st' = st"
proof -
  have "sre_run (MAX_REPEAT 0 (Suc 0) r) st = sre_run r st @ [st]"
    by (simp add: comp_def flip: map_concat) (induction "sre_run r st", simp_all)
  then show ?thesis by auto
qed

lemma run_REP_ONE_iff:
  "st' \<in> set (sre_run (MAX_REPEAT lo hi (ONE a)) (p, s)) \<longleftrightarrow>
   (\<exists>n. lo \<le> n \<and> n \<le> hi \<and> n \<le> length s \<and> list_all (atom_matches a) (take n s)
        \<and> st' = (p + n, drop n s))"
proof (induction hi arbitrary: lo p s)
  case 0
  show ?case by auto
next
  case (Suc hi)
  show ?case
  proof (cases s)
    case Nil
    then show ?thesis by auto
  next
    case (Cons c cs)
    show ?thesis
    proof (cases "atom_matches a c")
      case False
      with Cons show ?thesis
        by (auto simp: take_Cons' split: if_splits)
    next
      case True
      have "st' \<in> set (sre_run (MAX_REPEAT lo (Suc hi) (ONE a)) (p, s)) \<longleftrightarrow>
            st' \<in> set (sre_run (MAX_REPEAT (lo - 1) hi (ONE a)) (Suc p, cs)) \<or> (lo = 0 \<and> st' = (p, s))"
        using Cons True by auto
      also have "\<dots> \<longleftrightarrow> (\<exists>n. lo - 1 \<le> n \<and> n \<le> hi \<and> n \<le> length cs \<and> list_all (atom_matches a) (take n cs)
            \<and> st' = (Suc p + n, drop n cs)) \<or> (lo = 0 \<and> st' = (p, s))"
        by (simp only: Suc.IH)
      also have "\<dots> \<longleftrightarrow> (\<exists>n. lo \<le> n \<and> n \<le> Suc hi \<and> n \<le> length s \<and> list_all (atom_matches a) (take n s)
            \<and> st' = (p + n, drop n s))" (is "?L \<longleftrightarrow> ?R")
      proof
        assume ?L
        then show ?R
        proof
          assume "\<exists>n. lo - 1 \<le> n \<and> n \<le> hi \<and> n \<le> length cs \<and> list_all (atom_matches a) (take n cs)
            \<and> st' = (Suc p + n, drop n cs)"
          then obtain n where "lo - 1 \<le> n" "n \<le> hi" "n \<le> length cs" "list_all (atom_matches a) (take n cs)"
            "st' = (Suc p + n, drop n cs)" by blast
          with Cons True show ?R by (intro exI [of _ "Suc n"]) auto
        next
          assume "lo = 0 \<and> st' = (p, s)"
          then show ?R by (intro exI [of _ 0]) auto
        qed
      next
        assume ?R
        then obtain n where n: "lo \<le> n" "n \<le> Suc hi" "n \<le> length s" "list_all (atom_matches a) (take n s)"
            "st' = (p + n, drop n s)" by blast
        show ?L
        proof (cases n)
          case 0
          with n show ?thesis by auto
        next
          case (Suc m)
          with n Cons have "lo - 1 \<le> m \<and> m \<le> hi \<and> m \<le> length cs \<and> list_all (atom_matches a) (take m cs)
            \<and> st' = (Suc p + m, drop m cs)" by auto
          then show ?thesis by blast
        qed
      qed
      finally show ?thesis .
    qed
  qed
qed

lemma run_AT_END_iff:
  "st' \<in> set (sre_run AT_END (p, t)) \<longleftrightarrow> st' = (p, t) \<and> (t = [] \<or> t = [0xA])"
  by auto

lemma re_match_anchored:
  "re_match (SEQ AT_BEGINNING (SEQ body AT_END)) s \<longleftrightarrow>
   (\<exists>p t. (p, t) \<in> set (sre_run body (0, s)) \<and> (t = [] \<or> t = [0xA]))"
proof -
  have "sre_run (SEQ AT_BEGINNING (SEQ body AT_END)) (0, s) = sre_run (SEQ body AT_END) (0, s)"
    by simp
  then have "re_match (SEQ AT_BEGINNING (SEQ body AT_END)) s \<longleftrightarrow>
        set (sre_run (SEQ body AT_END) (0, s)) \<noteq> {}"
    by (simp only: re_match_def set_empty)
  also have "\<dots> \<longleftrightarrow> (\<exists>st'. st' \<in> set (sre_run (SEQ body AT_END) (0, s)))"
    by (simp only: ex_in_conv)
  also have "\<dots> \<longleftrightarrow> (\<exists>st'. \<exists>m \<in> set (sre_run body (0, s)). st' \<in> set (sre_run AT_END m))"
    by (simp only: run_SEQ_iff)
  also have "\<dots> \<longleftrightarrow> (\<exists>p t. (p, t) \<in> set (sre_run body (0, s)) \<and> (t = [] \<or> t = [0xA]))"
  proof
    assume "\<exists>st'. \<exists>m \<in> set (sre_run body (0, s)). st' \<in> set (sre_run AT_END m)"
    then obtain st' p t where "(p, t) \<in> set (sre_run body (0, s))" "st' \<in> set (sre_run AT_END (p, t))"
      by force
    then show "\<exists>p t. (p, t) \<in> set (sre_run body (0, s)) \<and> (t = [] \<or> t = [0xA])"
      unfolding run_AT_END_iff by blast
  next
    assume "\<exists>p t. (p, t) \<in> set (sre_run body (0, s)) \<and> (t = [] \<or> t = [0xA])"
    then obtain p t where "(p, t) \<in> set (sre_run body (0, s))" "t = [] \<or> t = [0xA]" by blast
    then have "(p, t) \<in> set (sre_run AT_END (p, t))" unfolding run_AT_END_iff by simp
    with \<open>(p, t) \<in> set (sre_run body (0, s))\<close>
    show "\<exists>st'. \<exists>m \<in> set (sre_run body (0, s)). st' \<in> set (sre_run AT_END m)" by blast
  qed
  finally show ?thesis .
qed

lemma run_SEQ_pair_iff:
  "(q, t) \<in> set (sre_run (SEQ a b) st) \<longleftrightarrow>
   (\<exists>p' t'. (p', t') \<in> set (sre_run a st) \<and> (q, t) \<in> set (sre_run b (p', t')))"
  by (simp only: run_SEQ_iff) auto

lemma opt_dot_iff:
  "(p, t) \<in> set (sre_run (MAX_REPEAT 0 1 (SEQ (ONE (LITERAL 0x2E)) (ONE a))) (n, u)) \<longleftrightarrow>
   (p = n \<and> t = u) \<or> (\<exists>x. atom_matches a x \<and> u = 0x2E # x # t \<and> p = Suc (Suc n))"
  unfolding run_OPT_iff run_SEQ_pair_iff run_ONE_iff by auto

lemma us_body_iff:
  "(p, t) \<in> set (sre_run (SEQ (MAX_REPEAT 1 5 (ONE (RANGE 0x41 0x5A)))
      (MAX_REPEAT 0 1 (SEQ (ONE (LITERAL 0x2E)) (ONE (RANGE 0x41 0x5A))))) (0, s)) \<longleftrightarrow>
   (\<exists>n. 1 \<le> n \<and> n \<le> 5 \<and> n \<le> length s \<and> list_all is_upper_AZ (take n s) \<and>
      ((p = n \<and> t = drop n s) \<or> (\<exists>x. is_upper_AZ x \<and> drop n s = 0x2E # x # t \<and> p = Suc (Suc n))))"
proof -
  have az: "atom_matches (RANGE 0x41 0x5A) = is_upper_AZ"
    by (auto simp: is_upper_AZ_def fun_eq_iff)
  show ?thesis
    unfolding run_SEQ_pair_iff run_REP_ONE_iff opt_dot_iff az by auto
qed

lemma us_match_raw:
  "re_match US_STOCK_PATTERN s \<longleftrightarrow>
   (\<exists>n. 1 \<le> n \<and> n \<le> 5 \<and> n \<le> length s \<and> list_all is_upper_AZ (take n s) \<and>
     (drop n s = [] \<or> drop n s = [0xA] \<or>
      (\<exists>x. is_upper_AZ x \<and> (drop n s = [0x2E, x] \<or> drop n s = [0x2E, x, 0xA]))))"
  unfolding US_STOCK_PATTERN_def re_match_anchored us_body_iff by blast

lemma last_of_drop:
  assumes "drop n s = u" "u \<noteq> []"
  shows "last s = last u" and "s \<noteq> []"
proof -
  from assms have "n < length s" by auto
  then show "last s = last u" "s \<noteq> []" using assms(1) by (auto simp: last_drop)
qed

lemma us_match_iff:
  assumes "s = [] \<or> last s \<noteq> 0xA"
  shows "re_match US_STOCK_PATTERN s \<longleftrightarrow> us_stock_shape s"
proof
  assume "re_match US_STOCK_PATTERN s"
  then obtain n where n: "1 \<le> n" "n \<le> 5" "n \<le> length s" "list_all is_upper_AZ (take n s)"
    and d: "drop n s = [] \<or> drop n s = [0xA] \<or>
      (\<exists>x. is_upper_AZ x \<and> (drop n s = [0x2E, x] \<or> drop n s = [0x2E, x, 0xA]))"
    unfolding us_match_raw by blast
  have s: "s = take n s @ drop n s" by simp
  have nl: "last (drop n s) \<noteq> 0xA" if "drop n s \<noteq> []"
  proof -
    from that have "n < length s" by simp
    then have "last (drop n s) = last s" "s \<noteq> []" by (auto simp: last_drop)
    with assms show ?thesis by simp
  qed
  have "drop n s \<noteq> [0xA]" "drop n s \<noteq> [0x2E, x, 0xA]" for x
    using nl by fastforce+
  with d have "drop n s = [] \<or> (\<exists>x. is_upper_AZ x \<and> drop n s = [0x2E, x])"
    by blast
  with n s show "us_stock_shape s"
    unfolding us_stock_shape_def
    by (intro exI [of _ "take n s"] exI [of _ "drop n s"]) auto
next
  assume "us_stock_shape s"
  then obtain letters suffix where l: "s = letters @ suffix" "1 \<le> length letters" "length letters \<le> 5"
    "list_all is_upper_AZ letters" "suffix = [] \<or> (\<exists>x. is_upper_AZ x \<and> suffix = [0x2E, x])"
    unfolding us_stock_shape_def by blast
  then show "re_match US_STOCK_PATTERN s"
    unfolding us_match_raw by (intro exI [of _ "length letters"]) auto
qed

lemma rep4_digit_iff:
  "(q, u) \<in> set (sre_run (MAX_REPEAT 4 4 (ONE CATEGORY_UNI_DIGIT)) (p, s)) \<longleftrightarrow>
   4 \<le> length s \<and> list_all py_isdecimal (take 4 s) \<and> q = p + 4 \<and> u = drop 4 s"
proof -
  have dg: "atom_matches CATEGORY_UNI_DIGIT = py_isdecimal"
    by (auto simp: fun_eq_iff)
  show ?thesis unfolding run_REP_ONE_iff dg by auto
qed

lemma jp_branch1_iff:
  "(q, t) \<in> set (sre_run (SEQ (ONE aj) (SEQ (ONE ap) (MAX_REPEAT 4 4 (ONE CATEGORY_UNI_DIGIT)))) (0, s)) \<longleftrightarrow>
   (\<exists>j pc cs. s = j # pc # cs \<and> atom_matches aj j \<and> atom_matches ap pc \<and> 4 \<le> length cs
       \<and> list_all py_isdecimal (take 4 cs) \<and> t = drop 4 cs \<and> q = 6)"
  unfolding run_SEQ_pair_iff rep4_digit_iff run_ONE_iff by auto

lemma jp_branch2_iff:
  "(q, t) \<in> set (sre_run (SEQ (MAX_REPEAT 4 4 (ONE CATEGORY_UNI_DIGIT))
                 (MAX_REPEAT 0 1 (SEQ (ONE (LITERAL 0x2E)) (ONE at)))) (0, s)) \<longleftrightarrow>
   4 \<le> length s \<and> list_all py_isdecimal (take 4 s)
       \<and> ((q = 4 \<and> t = drop 4 s) \<or> (\<exists>x. atom_matches at x \<and> drop 4 s = 0x2E # x # t \<and> q = 6))"
  unfolding run_SEQ_pair_iff rep4_digit_iff opt_dot_iff by auto

lemma jp_body_iff:
  "(p, t) \<in> set (sre_run (BRANCH
            (SEQ (ONE aj) (SEQ (ONE ap) (MAX_REPEAT 4 4 (ONE CATEGORY_UNI_DIGIT))))
            (SEQ (MAX_REPEAT 4 4 (ONE CATEGORY_UNI_DIGIT))
                 (MAX_REPEAT 0 1 (SEQ (ONE (LITERAL 0x2E)) (ONE at))))) (0, s)) \<longleftrightarrow>
   (\<exists>j pc cs. s = j # pc # cs \<and> atom_matches aj j \<and> atom_matches ap pc \<and> 4 \<le> length cs
       \<and> list_all py_isdecimal (take 4 cs) \<and> t = drop 4 cs \<and> p = 6)
   \<or> (4 \<le> length s \<and> list_all py_isdecimal (take 4 s)
       \<and> ((p = 4 \<and> t = drop 4 s) \<or> (\<exists>x. atom_matches at x \<and> drop 4 s = 0x2E # x # t \<and> p = 6)))"
  unfolding run_BRANCH_iff jp_branch1_iff jp_branch2_iff by (rule refl)

lemma jp_match_iff:
  assumes "s = [] \<or> last s \<noteq> 0xA"
  shows "re_match (jp_pattern aj ap at) s \<longleftrightarrow>
         jp_stock_shape (atom_matches aj) (atom_matches ap) (atom_matches at) s"
proof
  let ?body = "BRANCH
            (SEQ (ONE aj) (SEQ (ONE ap) (MAX_REPEAT 4 4 (ONE CATEGORY_UNI_DIGIT))))
            (SEQ (MAX_REPEAT 4 4 (ONE CATEGORY_UNI_DIGIT))
                 (MAX_REPEAT 0 1 (SEQ (ONE (LITERAL 0x2E)) (ONE at))))"
  assume "re_match (jp_pattern aj ap at) s"
  then have "\<exists>p t. (p, t) \<in> set (sre_run ?body (0, s)) \<and> (t = [] \<or> t = [0xA])"
    unfolding jp_pattern_def re_match_anchored .
  then obtain p t where m: "(p, t) \<in> set (sre_run ?body (0, s))" and pt: "t = [] \<or> t = [0xA]"
    by blast
  from m have b: "(\<exists>j pc cs. s = j # pc # cs \<and> atom_matches aj j \<and> atom_matches ap pc \<and> 4 \<le> length cs
       \<and> list_all py_isdecimal (take 4 cs) \<and> t = drop 4 cs \<and> p = 6)
   \<or> (4 \<le> length s \<and> list_all py_isdecimal (take 4 s)
       \<and> ((p = 4 \<and> t = drop 4 s) \<or> (\<exists>x. atom_matches at x \<and> drop 4 s = 0x2E # x # t \<and> p = 6)))"
    unfolding jp_body_iff .
  from b show "jp_stock_shape (atom_matches aj) (atom_matches ap) (atom_matches at) s"
  proof (elim disjE exE conjE)
    fix j pc cs
    assume a: "s = j # pc # cs" "atom_matches aj j" "atom_matches ap pc" "4 \<le> length cs"
      "list_all py_isdecimal (take 4 cs)" "t = drop 4 cs"
    have "drop 4 cs = []"
    proof (rule ccontr)
      assume "drop 4 cs \<noteq> []"
      with a pt have "drop 4 cs = [0xA]" by simp
      then have "last cs = 0xA" "cs \<noteq> []" using last_of_drop [of 4 cs "[0xA]"] by simp_all
      with a assms show False by simp
    qed
    with a show ?thesis
      unfolding jp_stock_shape_def by (intro exI [of _ cs]) auto
  next
    assume a: "4 \<le> length s" "list_all py_isdecimal (take 4 s)" "t = drop 4 s"
    have "drop 4 s = []"
    proof (rule ccontr)
      assume "drop 4 s \<noteq> []"
      with a pt have "drop 4 s = [0xA]" by simp
      then have "last s = 0xA" "s \<noteq> []" using last_of_drop [of 4 s "[0xA]"] by simp_all
      with assms show False by simp
    qed
    with a show ?thesis
      unfolding jp_stock_shape_def by (intro exI [of _ s]) auto
  next
    fix x
    assume a: "4 \<le> length s" "list_all py_isdecimal (take 4 s)" "atom_matches at x"
      "drop 4 s = 0x2E # x # t"
    have s: "s = take 4 s @ drop 4 s" by simp
    have "t = []"
    proof (rule ccontr)
      assume "t \<noteq> []"
      with pt have "t = [0xA]" by simp
      with a have "drop 4 s = [0x2E, x, 0xA]" by simp
      then have "last s = 0xA" "s \<noteq> []" using last_of_drop [of 4 s "[0x2E, x, 0xA]"] by simp_all
      with assms show False by simp
    qed
    with a s show ?thesis
      unfolding jp_stock_shape_def by (intro exI [of _ "take 4 s"]) auto
  qed
next
  assume "jp_stock_shape (atom_matches aj) (atom_matches ap) (atom_matches at) s"
  then obtain d where d: "length d = 4" "list_all py_isdecimal d"
    "(\<exists>j p. atom_matches aj j \<and> atom_matches ap p \<and> s = j # p # d) \<or> s = d
      \<or> (\<exists>t. atom_matches at t \<and> s = d @ [0x2E, t])"
    unfolding jp_stock_shape_def by blast
  from d(3) show "re_match (jp_pattern aj ap at) s"
  proof (elim disjE exE conjE)
    fix j p
    assume "atom_matches aj j" "atom_matches ap p" "s = j # p # d"
    with d(1,2) have "(6, []) \<in> set (sre_run (BRANCH
            (SEQ (ONE aj) (SEQ (ONE ap) (MAX_REPEAT 4 4 (ONE CATEGORY_UNI_DIGIT))))
            (SEQ (MAX_REPEAT 4 4 (ONE CATEGORY_UNI_DIGIT))
                 (MAX_REPEAT 0 1 (SEQ (ONE (LITERAL 0x2E)) (ONE at))))) (0, s))"
      unfolding jp_body_iff by simp
    then show ?thesis unfolding jp_pattern_def re_match_anchored by blast
  next
    assume "s = d"
    with d(1,2) have "(4, []) \<in> set (sre_run (BRANCH
            (SEQ (ONE aj) (SEQ (ONE ap) (MAX_REPEAT 4 4 (ONE CATEGORY_UNI_DIGIT))))
            (SEQ (MAX_REPEAT 4 4 (ONE CATEGORY_UNI_DIGIT))
                 (MAX_REPEAT 0 1 (SEQ (ONE (LITERAL 0x2E)) (ONE at))))) (0, s))"
      unfolding jp_body_iff by simp
    then show ?thesis unfolding jp_pattern_def re_match_anchored by blast
  next
    fix x
    assume "atom_matches at x" "s = d @ [0x2E, x]"
    with d(1,2) have "(6, []) \<in> set (sre_run (BRANCH
            (SEQ (ONE aj) (SEQ (ONE ap) (MAX_REPEAT 4 4 (ONE CATEGORY_UNI_DIGIT))))
            (SEQ (MAX_REPEAT 4 4 (ONE CATEGORY_UNI_DIGIT))
                 (MAX_REPEAT 0 1 (SEQ (ONE (LITERAL 0x2E)) (ONE at))))) (0, s))"
      unfolding jp_body_iff by simp
    then show ?thesis unfolding jp_pattern_def re_match_anchored by blast
  qed
qed

lemma newline_isspace: "py_isspace 0xA"
  by (simp add: py_isspace_def in_ranges_def whitespace_ranges_def)

lemma normalize_no_newline: "normalize_code code = [] \<or> last (normalize_code code) \<noteq> 0xA"
  using normalize_ends(2) [of code] newline_isspace by metis

lemma ascii_keys: "img_avoids upper_key_blocks 0 0x7F 1"
  by (simp add: table_check)

lemma ascii_runs: "img_avoids upper_run_blocks 0 0x60 1" "img_avoids upper_run_blocks 0x7B 0x7F 1"
  by (simp_all add: table_check)

lemma ascii_lower_runs: "list_all (pair_ok 0 0x40 1) lower_runs" "list_all (pair_ok 0x5B 0x7F 1) lower_runs"
  by (simp_all add: lower_runs_def)

lemma toupper_ascii:
  assumes "c \<le> 0x7F"
  shows "py_toupper_full c = [if 0x61 \<le> c \<and> c \<le> 0x7A then c - 0x20 else c]"
proof -
  have "\<not> in_run d c" if "d \<in> set (map key_run upper_special)" for d
    using img_avoids_sound [OF ok_keys ascii_keys, of c d] that assms
    by (simp add: runs_of_key_blocks)
  then have k: "map_of upper_special c = None"
    by (intro map_of_key_runs) (simp add: list_all_iff)
  show ?thesis
  proof (cases "0x61 \<le> c \<and> c \<le> 0x7A")
    case True
    then have "run_lookup upper_runs c = Some (c - 0x20)"
      by (simp add: run_lookup_def upper_runs_def upper_runs_1_def)
    with k True show ?thesis by (simp add: py_toupper_full_def)
  next
    case False
    have "\<not> in_run d c" if "d \<in> set upper_runs" for d
    proof (cases "c \<le> 0x60")
      case True
      then show ?thesis
        using img_avoids_sound [OF ok_runs ascii_runs(1), of c d] that
        by (simp add: runs_of_run_blocks)
    next
      case f: False
      with False assms have "0x7B \<le> c" "c \<le> 0x7F" "1 dvd c - 0x7B" by simp_all
      then show ?thesis
        using img_avoids_sound [OF ok_runs ascii_runs(2), of c d] that
        by (simp add: runs_of_run_blocks)
    qed
    then have "run_lookup upper_runs c = None"
      by (simp add: run_lookup_None list_all_iff)
    with k False show ?thesis by (auto simp: py_toupper_full_def)
  qed
qed

lemma lower_ascii:
  assumes "c \<le> 0x7F"
  shows "sre_lower_unicode c = (if 0x41 \<le> c \<and> c \<le> 0x5A then c + 0x20 else c)"
proof (cases "0x41 \<le> c \<and> c \<le> 0x5A")
  case True
  then have "run_lookup lower_runs c = Some (c + 0x20)"
    by (simp add: run_lookup_def lower_runs_def)
  with True show ?thesis by (simp add: sre_lower_unicode_def)
next
  case False
  have "\<not> in_run d c" if "d \<in> set lower_runs" for d
  proof (cases "c \<le> 0x40")
    case True
    with that ascii_lower_runs(1) show ?thesis
      by (intro pair_ok_sound [of 0 "0x40" 1]) (simp_all add: list_all_iff)
  next
    case f: False
    with False assms have "0x5B \<le> c" "c \<le> 0x7F" "1 dvd c - 0x5B" by simp_all
    with that ascii_lower_runs(2) show ?thesis
      by (intro pair_ok_sound [of "0x5B" "0x7F" 1]) (simp_all add: list_all_iff)
  qed
  then have "run_lookup lower_runs c = None"
    by (simp add: run_lookup_None list_all_iff)
  with False show ?thesis by (auto simp: sre_lower_unicode_def)
qed

lemma isspace_ascii:
  assumes "c \<le> 0x7F"
  shows "py_isspace c \<longleftrightarrow> (0x9 \<le> c \<and> c \<le> 0xD) \<or> (0x1C \<le> c \<and> c \<le> 0x20)"
  using assms by (auto simp: py_isspace_def in_ranges_def whitespace_ranges_def)

lemma isdecimal_ascii:
  assumes "c \<le> 0x7F"
  shows "py_isdecimal c \<longleftrightarrow> 0x30 \<le> c \<and> c \<le> 0x39"
  using assms by (simp add: py_isdecimal_def in_ranges_def decimal_ranges_def)

lemma isdigit_ascii:
  assumes "c \<le> 0x7F"
  shows "py_isdigit c \<longleftrightarrow> 0x30 \<le> c \<and> c \<le> 0x39"
  using assms by (simp add: py_isdigit_def isdecimal_ascii in_ranges_def other_digit_ranges_def)

lemma run_MAX_REPEAT_numeral:
  "sre_run (MAX_REPEAT lo (numeral k) r) st =
     concat (map (sre_run (MAX_REPEAT (lo - 1) (pred_numeral k) r)) (sre_run r st))
       @ (if lo = 0 then [st] else [])"
  by (simp add: numeral_eq_Suc)

lemmas ascii_eval = run_MAX_REPEAT_numeral toupper_ascii lower_ascii isspace_ascii isdecimal_ascii isdigit_ascii

lemmas module_defs = normalize_code_def str_strip_def str_upper_def str_isdigit_def str_startswith_def
  str_endswith_def slice_from_def slice_drop_last_def str_of_def dict_contains_def dict_get_def
  US_INDEX_MAPPING_def US_INDEX_ITEMS_def JP_INDEX_MAPPING_def JP_INDEX_ITEMS_def re_match_def
  US_STOCK_PATTERN_def JP_STOCK_PATTERN_def is_us_index_code_def is_us_stock_code_def
  get_us_index_yf_symbol_def is_jp_stock_code_def get_jp_stock_yf_symbol_def is_jp_index_code_def
  get_jp_index_yf_symbol_def

lemma toupper_not_jpt:
  assumes "y \<in> set (py_toupper_full c)"
  shows "y \<noteq> 0x6A \<and> y \<noteq> 0x70 \<and> y \<noteq> 0x74"
proof -
  have "py_toupper_full c = [c]" if "y = 0x6A \<or> y = 0x70 \<or> y = 0x74"
    using values_avoid [OF ok_jpt avoid_jpt assms] that
    by (auto simp: runs_of_blocks_def jpt_blocks_def)
  with assms show ?thesis
    using toupper_ascii [of c] by auto
qed

lemma normalize_not_jpt:
  assumes "y \<in> set (normalize_code code)"
  shows "y \<noteq> 0x6A \<and> y \<noteq> 0x70 \<and> y \<noteq> 0x74"
proof -
  from assms obtain c where "y \<in> set (py_toupper_full c)"
    by (auto simp: normalize_code_def str_upper_def)
  then show ?thesis by (rule toupper_not_jpt)
qed

section \<open>Lemmas for the claims\<close>

lemma startswith_JP: "str_startswith n (str_of ''JP'') \<longleftrightarrow> take 2 n = str_of ''JP''"
  by (simp add: str_startswith_def str_of_def numeral_2_eq_2)

lemma endswith_dot_T:
  "str_endswith n (str_of ''.T'') \<and> str_isdigit (slice_drop_last 2 n) \<and> length (slice_drop_last 2 n) = 4
   \<longleftrightarrow> (\<exists>d. n = d @ str_of ''.T'' \<and> length d = 4 \<and> list_all py_isdigit d)"
proof
  assume a: "str_endswith n (str_of ''.T'') \<and> str_isdigit (slice_drop_last 2 n) \<and> length (slice_drop_last 2 n) = 4"
  define d where "d = take (length n - 2) n"
  from a have "drop (length n - 2) n = str_of ''.T''"
    by (simp add: str_endswith_def str_of_def numeral_2_eq_2)
  then have "n = d @ str_of ''.T''"
    unfolding d_def by (metis append_take_drop_id)
  moreover from a have "length d = 4" "list_all py_isdigit d"
    unfolding d_def slice_drop_last_def str_isdigit_def by blast+
  ultimately show "\<exists>d. n = d @ str_of ''.T'' \<and> length d = 4 \<and> list_all py_isdigit d"
    by blast
next
  assume "\<exists>d. n = d @ str_of ''.T'' \<and> length d = 4 \<and> list_all py_isdigit d"
  then obtain d where "n = d @ str_of ''.T''" "length d = 4" "list_all py_isdigit d" by blast
  then show "str_endswith n (str_of ''.T'') \<and> str_isdigit (slice_drop_last 2 n) \<and> length (slice_drop_last 2 n) = 4"
    by (auto simp: str_endswith_def slice_drop_last_def str_isdigit_def str_of_def numeral_2_eq_2)
qed

text \<open>The three tests of \<open>get_jp_stock_yf_symbol\<close>, on lists.\<close>

lemma jp_translator_tests:
  "get_jp_stock_yf_symbol code =
     (let n = normalize_code code in
      if take 2 n = str_of ''JP'' \<and> length n = 6 \<and> list_all py_isdigit (drop 2 n)
      then (Some (drop 2 n @ str_of ''.T''), None)
      else if (\<exists>d. n = d @ str_of ''.T'' \<and> length d = 4 \<and> list_all py_isdigit d)
      then (Some n, None)
      else if length n = 4 \<and> list_all py_isdigit n
      then (Some (n @ str_of ''.T''), None)
      else (None, None))"
proof -
  define n where "n = normalize_code code"
  have 1: "str_startswith n (str_of ''JP'') \<and> length n = 6 \<and> str_isdigit (drop 2 n)
        \<longleftrightarrow> take 2 n = str_of ''JP'' \<and> length n = 6 \<and> list_all py_isdigit (drop 2 n)"
    by (auto simp: startswith_JP str_isdigit_def)
  have 3: "str_isdigit n \<and> length n = 4 \<longleftrightarrow> length n = 4 \<and> list_all py_isdigit n"
    by (auto simp: str_isdigit_def)
  show ?thesis
    unfolding get_jp_stock_yf_symbol_def Let_def slice_from_def n_def [symmetric]
    by (simp only: 1 endswith_dot_T 3)
qed

text \<open>
  Where every character of the normalized code that \<^verbatim>\<open>str.isdigit\<close> accepts is a decimal
  digit, the tests of the source are the tests of the four steps.
\<close>

lemma jp_symbol_steps_decimal:
  assumes dec: "list_all (\<lambda>c. py_isdigit c \<longrightarrow> py_isdecimal c) (normalize_code code)"
  shows "get_jp_stock_yf_symbol code = jp_symbol_steps (normalize_code code)"
proof -
  define n where "n = normalize_code code"
  have sub: "list_all py_isdigit d \<longleftrightarrow> list_all py_isdecimal d" if "set d \<subseteq> set n" for d
    using that dec unfolding n_def [symmetric] by (auto simp: list_all_iff py_isdigit_def)
  have 1: "list_all py_isdigit (drop 2 n) \<longleftrightarrow> list_all py_isdecimal (drop 2 n)"
    by (rule sub) (rule set_drop_subset)
  have 2: "(\<exists>d. n = d @ str_of ''.T'' \<and> length d = 4 \<and> list_all py_isdigit d)
       \<longleftrightarrow> (\<exists>d. n = d @ str_of ''.T'' \<and> length d = 4 \<and> list_all py_isdecimal d)"
    using sub by auto
  have 3: "list_all py_isdigit n \<longleftrightarrow> list_all py_isdecimal n"
    by (rule sub) simp
  show ?thesis
    unfolding jp_translator_tests jp_symbol_steps_def Let_def n_def [symmetric]
    by (simp only: 1 2 3)
qed

lemma dict_contains_dom:
  "dict_contains US_INDEX_MAPPING k \<longleftrightarrow> k \<in> dom US_INDEX_MAPPING"
  by (auto simp: dict_contains_def)

lemmas fun_defs = str_isdigit_def str_startswith_def
  str_endswith_def slice_from_def slice_drop_last_def str_of_def dict_contains_def dict_get_def
  US_INDEX_MAPPING_def US_INDEX_ITEMS_def JP_INDEX_MAPPING_def JP_INDEX_ITEMS_def re_match_def
  US_STOCK_PATTERN_def JP_STOCK_PATTERN_def is_us_index_code_def is_us_stock_code_def
  get_us_index_yf_symbol_def is_jp_stock_code_def get_jp_stock_yf_symbol_def is_jp_index_code_def
  get_jp_index_yf_symbol_def

lemma us_key_chars:
  assumes "US_INDEX_MAPPING key = Some y"
  shows "key \<noteq> []" and "list_all key_char key"
proof -
  have "list_all (\<lambda>(k, v). k \<noteq> [] \<and> list_all key_char k) US_INDEX_ITEMS"
    by (simp add: US_INDEX_ITEMS_def str_of_def key_char_def isspace_ascii)
  moreover from assms have "(key, y) \<in> set US_INDEX_ITEMS"
    unfolding US_INDEX_MAPPING_def by (rule map_of_SomeD)
  ultimately show "key \<noteq> []" "list_all key_char key"
    by (auto simp: list_all_iff)
qed

lemma variant_char:
  assumes "key_char k" "c = k \<or> c = ascii_lower k"
  shows "py_toupper_full c = [k]" and "\<not> py_isspace c"
proof -
  from assms(1) have k: "k \<le> 0x7F" "\<not> (0x61 \<le> k \<and> k \<le> 0x7A)" "\<not> py_isspace k"
    by (simp_all add: key_char_def)
  have "py_toupper_full c = [k] \<and> \<not> py_isspace c"
  proof (cases "0x41 \<le> k \<and> k \<le> 0x5A \<and> c \<noteq> k")
    case True
    with assms(2) have c: "c = k + 0x20" "0x61 \<le> c" "c \<le> 0x7A" "c \<le> 0x7F"
      by (simp_all add: ascii_lower_def)
    then show ?thesis
      by (simp add: toupper_ascii isspace_ascii)
  next
    case False
    with assms(2) have "c = k" by (auto simp: ascii_lower_def)
    with k show ?thesis
      by (auto simp: toupper_ascii)
  qed
  then show "py_toupper_full c = [k]" "\<not> py_isspace c" by simp_all
qed

lemma variant_upper:
  assumes "list_all2 (\<lambda>k c. c = k \<or> c = ascii_lower k) key v" "list_all key_char key"
  shows "str_upper v = key \<and> list_all (\<lambda>c. \<not> py_isspace c) v"
  using assms
proof (induction rule: list_all2_induct)
  case Nil
  show ?case by (simp add: str_upper_def)
next
  case (Cons k key c v)
  then have "py_toupper_full c = [k]" "\<not> py_isspace c"
    using variant_char [of k c] by simp_all
  with Cons show ?case by (simp add: str_upper_def)
qed

lemma strip_padded:
  assumes v: "v \<noteq> []" "\<not> py_isspace (hd v)" "\<not> py_isspace (last v)"
    and l: "list_all py_isspace l" and r: "list_all py_isspace r"
  shows "str_strip (l @ v @ r) = v"
proof -
  from l have "dropWhile py_isspace (l @ v @ r) = dropWhile py_isspace (v @ r)"
    by (simp add: dropWhile_append2 list_all_iff)
  also from v have "\<dots> = v @ r" by (cases v) simp_all
  finally have 1: "dropWhile py_isspace (l @ v @ r) = v @ r" .
  from r have "dropWhile py_isspace (rev r @ rev v) = dropWhile py_isspace (rev v)"
    by (intro dropWhile_append2) (simp add: list_all_iff)
  also from v have "\<dots> = rev v"
    by (simp add: dropWhile_eq_self_iff hd_rev)
  finally show ?thesis by (simp add: str_strip_def 1)
qed

lemma variant_normalizes:
  assumes "US_INDEX_MAPPING key = Some y" "case_variant key v" "padded_variant v code"
  shows "normalize_code (Some code) = key"
proof -
  from assms(1) have k: "key \<noteq> []" "list_all key_char key" by (rule us_key_chars)+
  with assms(2) have u: "str_upper v = key" and ns: "list_all (\<lambda>c. \<not> py_isspace c) v"
    using variant_upper [of key v] by (simp_all add: case_variant_def)
  from u k have "v \<noteq> []" by (auto simp: str_upper_def)
  with ns have "\<not> py_isspace (hd v)" "\<not> py_isspace (last v)"
    by (simp_all add: list_all_iff)
  moreover from assms(3) obtain l r where "code = l @ v @ r" "list_all py_isspace l" "list_all py_isspace r"
    unfolding padded_variant_def by blast
  ultimately have "str_strip code = v"
    using \<open>v \<noteq> []\<close> by (simp add: strip_padded)
  with u show ?thesis by (simp add: normalize_code_def)
qed

lemma normalize_blank:
  assumes "code = None \<or> (\<exists>s. code = Some s \<and> list_all py_isspace s)"
  shows "normalize_code code = []"
proof -
  have "str_strip s = []" if "list_all py_isspace s" for s
  proof -
    from that have d: "dropWhile py_isspace s = []"
      unfolding list_all_iff dropWhile_eq_Nil_conv .
    show ?thesis unfolding str_strip_def d by simp
  qed
  with assms show ?thesis
    by (auto simp: normalize_code_def str_upper_def)
qed

lemma lower_is_jpt:
  assumes "sre_lower_unicode y = l" "l = 0x6A \<or> l = 0x70 \<or> l = 0x74"
  shows "y = l \<or> y + 0x20 = l"
proof (cases "run_lookup lower_runs y")
  case None
  with assms(1) show ?thesis by (simp add: sre_lower_unicode_def)
next
  case (Some z)
  with assms(1) have "z = l" by (simp add: sre_lower_unicode_def)
  with Some obtain r where r: "r \<in> set lower_runs" "in_run r y" "l = run_target r y"
    by (blast dest: run_lookup_Some)
  from r(1) lower_jpt have "r = (0x41, 0x5A, 1, 0x61) \<or> run_image_avoids jpt_blocks r"
    by (auto simp: list_all_iff)
  then show ?thesis
  proof
    assume "r = (0x41, 0x5A, 1, 0x61)"
    with r show ?thesis by auto
  next
    assume av: "run_image_avoids jpt_blocks r"
    from assms(2) have "range_run (l, l) \<in> set (runs_of_blocks jpt_blocks)"
      by (auto simp: runs_of_blocks_def jpt_blocks_def)
    from run_image_avoids_sound [OF ok_jpt av r(2) this] r(3) show ?thesis by simp
  qed
qed

lemma ignorecase_redundant:
  assumes "y \<in> set (normalize_code code)"
  shows "atom_matches (LITERAL_UNI_IGNORE 0x6A) y = atom_matches (LITERAL 0x4A) y"
    and "atom_matches (LITERAL_UNI_IGNORE 0x70) y = atom_matches (LITERAL 0x50) y"
    and "atom_matches (LITERAL_UNI_IGNORE 0x74) y = atom_matches (LITERAL 0x54) y"
proof -
  from assms have n: "y \<noteq> 0x6A" "y \<noteq> 0x70" "y \<noteq> 0x74"
    using normalize_not_jpt by blast+
  show "atom_matches (LITERAL_UNI_IGNORE 0x6A) y = atom_matches (LITERAL 0x4A) y"
    using lower_is_jpt [of y "0x6A"] n by (auto simp: lower_ascii)
  show "atom_matches (LITERAL_UNI_IGNORE 0x70) y = atom_matches (LITERAL 0x50) y"
    using lower_is_jpt [of y "0x70"] n by (auto simp: lower_ascii)
  show "atom_matches (LITERAL_UNI_IGNORE 0x74) y = atom_matches (LITERAL 0x54) y"
    using lower_is_jpt [of y "0x74"] n by (auto simp: lower_ascii)
qed

lemma jp_stock_shape_cong:
  assumes "\<And>y. y \<in> set s \<Longrightarrow> J y = J' y \<and> P y = P' y \<and> T y = T' y"
  shows "jp_stock_shape J P T s = jp_stock_shape J' P' T' s"
proof -
  have "(\<exists>j p. J j \<and> P p \<and> s = j # p # d) = (\<exists>j p. J' j \<and> P' p \<and> s = j # p # d)" for d
    using assms by fastforce
  moreover have "(\<exists>t. T t \<and> s = d @ [0x2E, t]) = (\<exists>t. T' t \<and> s = d @ [0x2E, t])" for d
    using assms by fastforce
  ultimately show ?thesis unfolding jp_stock_shape_def by simp
qed

lemma superscript_two:
  "\<not> py_isspace 0xB2" "py_toupper_full 0xB2 = [0xB2]" "py_isdigit 0xB2" "\<not> py_isdecimal 0xB2"
  "sre_lower_unicode 0xB2 = 0xB2"
proof -
  show "\<not> py_isspace 0xB2"
    by (simp add: py_isspace_def in_ranges_def whitespace_ranges_def)
  have "img_avoids upper_run_blocks 0xB2 0xB2 0" "img_avoids upper_key_blocks 0xB2 0xB2 0"
    by (simp_all add: table_check)
  then have "upper_fixed 0xB2"
    using img_avoids_sound [OF ok_runs, of "0xB2" "0xB2" 0 "0xB2"]
      img_avoids_sound [OF ok_keys, of "0xB2" "0xB2" 0 "0xB2"]
    by (simp add: upper_fixed_def list_all_iff runs_of_run_blocks runs_of_key_blocks)
  then show "py_toupper_full 0xB2 = [0xB2]" by (rule upper_fixed_toupper)
  show "py_isdigit 0xB2"
    by (simp add: py_isdigit_def in_ranges_def other_digit_ranges_def)
  show "\<not> py_isdecimal 0xB2"
    by (simp add: py_isdecimal_def in_ranges_def decimal_ranges_def)
  have "list_all (pair_ok 0xB2 0xB2 0) lower_runs"
    by (simp add: lower_runs_def)
  then have "run_lookup lower_runs 0xB2 = None"
    using pair_ok_sound [of "0xB2" "0xB2" 0 _ "0xB2"]
    by (simp add: run_lookup_None list_all_iff)
  then show "sre_lower_unicode 0xB2 = 0xB2" by (simp add: sre_lower_unicode_def)
qed

lemma jp_classifier_shape:
  "is_jp_stock_code code \<longleftrightarrow>
   jp_stock_shape (atom_matches (LITERAL 0x4A)) (atom_matches (LITERAL 0x50))
      (atom_matches (LITERAL 0x54)) (normalize_code code)"
proof -
  let ?n = "normalize_code code"
  have nl: "?n = [] \<or> last ?n \<noteq> 0xA" by (rule normalize_no_newline)
  have "is_jp_stock_code code
      = re_match (jp_pattern (LITERAL_UNI_IGNORE 0x6A) (LITERAL_UNI_IGNORE 0x70) (LITERAL_UNI_IGNORE 0x74)) ?n"
    by (simp add: is_jp_stock_code_def JP_STOCK_PATTERN_def jp_pattern_def)
  also have "\<dots> = jp_stock_shape (atom_matches (LITERAL_UNI_IGNORE 0x6A))
      (atom_matches (LITERAL_UNI_IGNORE 0x70)) (atom_matches (LITERAL_UNI_IGNORE 0x74)) ?n"
    using nl by (rule jp_match_iff)
  also have "\<dots> = jp_stock_shape (atom_matches (LITERAL 0x4A))
      (atom_matches (LITERAL 0x50)) (atom_matches (LITERAL 0x54)) ?n"
    by (rule jp_stock_shape_cong) (simp only: ignorecase_redundant simp_thms)
  finally show ?thesis .
qed

lemma jp_translator_shape:
  "fst (get_jp_stock_yf_symbol code) \<noteq> None \<longleftrightarrow>
     (take 2 (normalize_code code) = str_of ''JP'' \<and> length (normalize_code code) = 6
        \<and> list_all py_isdigit (drop 2 (normalize_code code)))
     \<or> (\<exists>d. normalize_code code = d @ str_of ''.T'' \<and> length d = 4 \<and> list_all py_isdigit d)
     \<or> (length (normalize_code code) = 4 \<and> list_all py_isdigit (normalize_code code))"
  by (simp add: jp_translator_tests Let_def)

lemma jp_classifier_translator:
  assumes "is_jp_stock_code code"
  shows "fst (get_jp_stock_yf_symbol code) \<noteq> None"
proof -
  let ?n = "normalize_code code"
  from assms obtain d where d: "length d = 4" "list_all py_isdecimal d"
    and s: "(\<exists>j p. j = 0x4A \<and> p = 0x50 \<and> ?n = j # p # d) \<or> ?n = d \<or> (\<exists>t. t = 0x54 \<and> ?n = d @ [0x2E, t])"
    unfolding jp_classifier_shape jp_stock_shape_def by auto
  from d(2) have dg: "list_all py_isdigit d"
    by (simp add: list_all_iff py_isdigit_def)
  from s show ?thesis
  proof (elim disjE)
    assume "\<exists>j p. j = 0x4A \<and> p = 0x50 \<and> ?n = j # p # d"
    then have "?n = str_of ''JP'' @ d" by (simp add: str_of_def)
    with d dg show ?thesis unfolding jp_translator_shape by (simp add: str_of_def)
  next
    assume "?n = d"
    with d dg show ?thesis unfolding jp_translator_shape by simp
  next
    assume "\<exists>t. t = 0x54 \<and> ?n = d @ [0x2E, t]"
    then have "?n = d @ str_of ''.T''" by (simp add: str_of_def)
    with d dg show ?thesis unfolding jp_translator_shape by blast
  qed
qed

lemma jp_translator_classifier:
  assumes dec: "list_all (\<lambda>c. py_isdigit c \<longrightarrow> py_isdecimal c) (normalize_code code)"
    and sym: "fst (get_jp_stock_yf_symbol code) \<noteq> None"
  shows "is_jp_stock_code code"
proof -
  let ?n = "normalize_code code"
  have sub: "list_all py_isdecimal d" if "list_all py_isdigit d" "set d \<subseteq> set ?n" for d
    using that dec by (auto simp: list_all_iff)
  from sym have "(take 2 ?n = str_of ''JP'' \<and> length ?n = 6 \<and> list_all py_isdigit (drop 2 ?n))
     \<or> (\<exists>d. ?n = d @ str_of ''.T'' \<and> length d = 4 \<and> list_all py_isdigit d)
     \<or> (length ?n = 4 \<and> list_all py_isdigit ?n)"
    unfolding jp_translator_shape .
  then have "\<exists>d. length d = 4 \<and> list_all py_isdecimal d \<and>
      ((\<exists>j p. j = 0x4A \<and> p = 0x50 \<and> ?n = j # p # d) \<or> ?n = d \<or> (\<exists>t. t = 0x54 \<and> ?n = d @ [0x2E, t]))"
  proof (elim disjE conjE exE)
    assume a: "take 2 ?n = str_of ''JP''" "length ?n = 6" "list_all py_isdigit (drop 2 ?n)"
    have "?n = take 2 ?n @ drop 2 ?n" by simp
    with a(1) have n: "?n = 0x4A # 0x50 # drop 2 ?n" by (simp add: str_of_def)
    have "list_all py_isdecimal (drop 2 ?n)"
      using a(3) by (rule sub) (rule set_drop_subset)
    with a(2) n show ?thesis by (intro exI [of _ "drop 2 ?n"]) auto
  next
    fix d
    assume a: "?n = d @ str_of ''.T''" "length d = 4" "list_all py_isdigit d"
    then have "list_all py_isdecimal d" by (intro sub) auto
    with a show ?thesis by (intro exI [of _ d]) (simp add: str_of_def)
  next
    assume a: "length ?n = 4" "list_all py_isdigit ?n"
    then have "list_all py_isdecimal ?n" by (intro sub) auto
    with a show ?thesis by (intro exI [of _ ?n]) simp
  qed
  then show ?thesis
    unfolding jp_classifier_shape jp_stock_shape_def by simp
qed

section \<open>The claims\<close>

text \<open>
  Claim C1, at the input of four superscript twos (U+00B2). The four steps of the claim,
  \<open>jp_symbol_steps\<close>, give \<open>(None, None)\<close> on the normalized code: it does not start with
  \<open>JP\<close>, does not end with \<open>.T\<close>, and is not four digits. \<open>get_jp_stock_yf_symbol\<close> returns
  the code with \<open>.T\<close> appended, since \<^verbatim>\<open>str.isdigit\<close> accepts the character.
\<close>

theorem C1_superscript_digits_leave_steps:
  "get_jp_stock_yf_symbol (Some [0xB2, 0xB2, 0xB2, 0xB2]) = (Some ([0xB2, 0xB2, 0xB2, 0xB2] @ str_of ''.T''), None)
   \<and> jp_symbol_steps (normalize_code (Some [0xB2, 0xB2, 0xB2, 0xB2])) = (None, None)"
proof
  show "get_jp_stock_yf_symbol (Some [0xB2, 0xB2, 0xB2, 0xB2]) = (Some ([0xB2, 0xB2, 0xB2, 0xB2] @ str_of ''.T''), None)"
    by (simp add: module_defs superscript_two)
  have n: "normalize_code (Some [0xB2, 0xB2, 0xB2, 0xB2]) = [0xB2, 0xB2, 0xB2, 0xB2]"
    by (simp add: normalize_code_def str_strip_def str_upper_def superscript_two)
  have "\<not> (\<exists>d. [0xB2, 0xB2, 0xB2, 0xB2] = d @ str_of ''.T'' \<and> length d = 4 \<and> list_all py_isdecimal d)"
  proof
    assume "\<exists>d. [0xB2, 0xB2, 0xB2, 0xB2] = d @ str_of ''.T'' \<and> length d = 4 \<and> list_all py_isdecimal d"
    then obtain d :: str where e: "[0xB2, 0xB2, 0xB2, 0xB2] = d @ str_of ''.T''" and l: "length d = 4"
      by blast
    from e have "length [0xB2, 0xB2, 0xB2, 0xB2 :: codepoint] = length (d @ str_of ''.T'')"
      by (rule arg_cong)
    with l show False by (simp add: str_of_def)
  qed
  then show "jp_symbol_steps (normalize_code (Some [0xB2, 0xB2, 0xB2, 0xB2])) = (None, None)"
    unfolding n jp_symbol_steps_def by (simp add: superscript_two str_of_def)
qed

text \<open>
  Claim C2. \<open>is_us_stock_code\<close> is false when the normalized code is a key of the US index
  table; otherwise it is true exactly when the whole normalized code is one to five letters
  \<open>A\<close> to \<open>Z\<close>, optionally followed by a dot and one such letter. \<open>AAPL\<close>, \<open>TSLA\<close> and
  \<open>BRK.B\<close> are stock codes, \<open>600519\<close> is not; neither are \<open>ABCDEF\<close> and \<open>AAPL1\<close>,
  which only contain a match.
\<close>

theorem C2_is_us_stock_code_pattern:
  "is_us_stock_code code =
     (if normalize_code code \<in> dom US_INDEX_MAPPING then False else us_stock_shape (normalize_code code))
   \<and> is_us_stock_code (Some (str_of ''AAPL''))
   \<and> is_us_stock_code (Some (str_of ''TSLA''))
   \<and> is_us_stock_code (Some (str_of ''BRK.B''))
   \<and> \<not> is_us_stock_code (Some (str_of ''600519''))
   \<and> \<not> is_us_stock_code (Some (str_of ''ABCDEF''))
   \<and> \<not> is_us_stock_code (Some (str_of ''AAPL1''))"
proof (intro conjI)
  have "re_match US_STOCK_PATTERN (normalize_code code) = us_stock_shape (normalize_code code)"
    by (rule us_match_iff) (rule normalize_no_newline)
  then show "is_us_stock_code code =
     (if normalize_code code \<in> dom US_INDEX_MAPPING then False else us_stock_shape (normalize_code code))"
    by (simp add: is_us_stock_code_def Let_def dict_contains_dom)
qed (simp_all add: module_defs ascii_eval)

theorem C2_is_us_stock_code_pattern_witness:
  "normalize_code (Some (str_of '' brk.b '')) \<notin> dom US_INDEX_MAPPING
   \<and> us_stock_shape (normalize_code (Some (str_of '' brk.b '')))"
proof -
  have "is_us_stock_code (Some (str_of '' brk.b ''))"
    by (simp add: module_defs ascii_eval)
  with C2_is_us_stock_code_pattern [of "Some (str_of '' brk.b '')"] show ?thesis
    by (simp split: if_splits)
qed

text \<open>
  Claim C3. A code recognised as an index is never classified as a stock of the same market:
  a US index code is not a US stock code, a Japan index code is not a Japan stock code, and
  \<open>N225\<close> is not a Japan stock code.
\<close>

theorem C3_index_never_stock:
  "(is_us_index_code code \<longrightarrow> \<not> is_us_stock_code code)
   \<and> (is_jp_index_code code \<longrightarrow> \<not> is_jp_stock_code code)
   \<and> \<not> is_jp_stock_code (Some (str_of ''N225''))"
proof (intro conjI impI)
  assume "is_us_index_code code"
  then show "\<not> is_us_stock_code code"
    by (simp add: is_us_index_code_def is_us_stock_code_def Let_def)
next
  assume "is_jp_index_code code"
  then have "normalize_code code \<in> fst ` set JP_INDEX_ITEMS"
    by (auto simp: is_jp_index_code_def dict_contains_def JP_INDEX_MAPPING_def dest: map_of_SomeD
      intro: rev_image_eqI)
  moreover have "\<forall>k \<in> fst ` set JP_INDEX_ITEMS. \<not> re_match JP_STOCK_PATTERN k"
    by (simp add: module_defs ascii_eval)
  ultimately show "\<not> is_jp_stock_code code"
    unfolding is_jp_stock_code_def by blast
next
  show "\<not> is_jp_stock_code (Some (str_of ''N225''))"
    by (simp add: module_defs ascii_eval)
qed

theorem C3_index_never_stock_witness:
  "is_us_index_code (Some (str_of ''spx'')) \<and> \<not> is_us_stock_code (Some (str_of ''spx''))
   \<and> is_jp_index_code (Some (str_of ''topix'')) \<and> \<not> is_jp_stock_code (Some (str_of ''topix''))"
proof -
  have "is_us_index_code (Some (str_of ''spx''))" "is_jp_index_code (Some (str_of ''topix''))"
    by (simp_all add: module_defs ascii_eval)
  with C3_index_never_stock [of "Some (str_of ''spx'')"] C3_index_never_stock [of "Some (str_of ''topix'')"]
  show ?thesis by simp
qed

text \<open>
  Claim C4. For every key of the US index table, every variant of it with letters changed to
  lower case and white space added on either side is recognised by \<open>is_us_index_code\<close> and
  \<open>get_us_index_yf_symbol\<close> returns the pair the table maps the key to; when the normalized
  code is not a key, \<open>get_us_index_yf_symbol\<close> returns \<open>(None, None)\<close>.
\<close>

theorem C4_us_index_lookup:
  "(US_INDEX_MAPPING key = Some (symbol, name) \<and> case_variant key v \<and> padded_variant v code
      \<longrightarrow> is_us_index_code (Some code) \<and> get_us_index_yf_symbol (Some code) = (Some symbol, Some name))
   \<and> (normalize_code c \<notin> dom US_INDEX_MAPPING \<longrightarrow> get_us_index_yf_symbol c = (None, None))"
proof (intro conjI impI)
  assume a: "US_INDEX_MAPPING key = Some (symbol, name) \<and> case_variant key v \<and> padded_variant v code"
  then have "normalize_code (Some code) = key"
    using variant_normalizes by blast
  with a show "is_us_index_code (Some code)"
    and "get_us_index_yf_symbol (Some code) = (Some symbol, Some name)"
    by (simp_all add: is_us_index_code_def get_us_index_yf_symbol_def dict_contains_def dict_get_def)
next
  assume "normalize_code c \<notin> dom US_INDEX_MAPPING"
  then have "US_INDEX_MAPPING (normalize_code c) = None"
    by blast
  then show "get_us_index_yf_symbol c = (None, None)"
    by (simp add: get_us_index_yf_symbol_def dict_get_def)
qed

theorem C4_us_index_lookup_witness:
  "US_INDEX_MAPPING (str_of ''^GSPC'') = Some (str_of ''^GSPC'', name_SP500)
   \<and> case_variant (str_of ''^GSPC'') (str_of ''^gSpc'')
   \<and> padded_variant (str_of ''^gSpc'') (str_of ''  ^gSpc '')
   \<and> is_us_index_code (Some (str_of ''  ^gSpc ''))
   \<and> get_us_index_yf_symbol (Some (str_of ''  ^gSpc '')) = (Some (str_of ''^GSPC''), Some name_SP500)
   \<and> normalize_code (Some (str_of ''AAPL'')) \<notin> dom US_INDEX_MAPPING
   \<and> get_us_index_yf_symbol (Some (str_of ''AAPL'')) = (None, None)"
proof -
  have 1: "US_INDEX_MAPPING (str_of ''^GSPC'') = Some (str_of ''^GSPC'', name_SP500)"
    by (simp add: US_INDEX_MAPPING_def US_INDEX_ITEMS_def str_of_def)
  have 2: "case_variant (str_of ''^GSPC'') (str_of ''^gSpc'')"
    by (simp add: case_variant_def ascii_lower_def str_of_def)
  have "str_of ''  ^gSpc '' = str_of ''  '' @ str_of ''^gSpc'' @ str_of '' ''"
    "list_all py_isspace (str_of ''  '')" "list_all py_isspace (str_of '' '')"
    by (simp_all add: str_of_def isspace_ascii)
  then have 3: "padded_variant (str_of ''^gSpc'') (str_of ''  ^gSpc '')"
    unfolding padded_variant_def by blast
  have 4: "normalize_code (Some (str_of ''AAPL'')) \<notin> dom US_INDEX_MAPPING"
    by (simp add: module_defs ascii_eval domIff)
  from 1 2 3 4 C4_us_index_lookup [of "str_of ''^GSPC''" "str_of ''^GSPC''" name_SP500 "str_of ''^gSpc''"
      "str_of ''  ^gSpc ''" "Some (str_of ''AAPL'')"]
  show ?thesis by blast
qed

text \<open>
  Claim C5. \<open>get_jp_index_yf_symbol\<close> looks the normalized code up in the Japan index table
  and returns \<open>(None, None)\<close> when it is not a key. \<open>N225\<close> gives \<open>^N225\<close> and \<open>TOPIX\<close>
  gives \<open>^TOPX\<close>, each with its display name, and \<open>JP7203\<close> gives \<open>(None, None)\<close>.
\<close>

theorem C5_get_jp_index_yf_symbol:
  "(normalize_code code \<notin> dom JP_INDEX_MAPPING \<longrightarrow> get_jp_index_yf_symbol code = (None, None))
   \<and> (JP_INDEX_MAPPING (normalize_code code) = Some (symbol, name)
        \<longrightarrow> get_jp_index_yf_symbol code = (Some symbol, Some name))
   \<and> get_jp_index_yf_symbol (Some (str_of ''N225'')) = (Some (str_of ''^N225''), Some name_N225)
   \<and> get_jp_index_yf_symbol (Some (str_of ''TOPIX'')) = (Some (str_of ''^TOPX''), Some name_TOPIX)
   \<and> get_jp_index_yf_symbol (Some (str_of ''JP7203'')) = (None, None)"
proof (intro conjI impI)
  assume "normalize_code code \<notin> dom JP_INDEX_MAPPING"
  then have "JP_INDEX_MAPPING (normalize_code code) = None" by blast
  then show "get_jp_index_yf_symbol code = (None, None)"
    by (simp add: get_jp_index_yf_symbol_def dict_get_def)
next
  assume "JP_INDEX_MAPPING (normalize_code code) = Some (symbol, name)"
  then show "get_jp_index_yf_symbol code = (Some symbol, Some name)"
    by (simp add: get_jp_index_yf_symbol_def dict_get_def)
qed (simp_all add: module_defs ascii_eval)

theorem C5_get_jp_index_yf_symbol_witness:
  "JP_INDEX_MAPPING (normalize_code (Some (str_of '' nikkei ''))) = Some (str_of ''^N225'', name_N225)
   \<and> get_jp_index_yf_symbol (Some (str_of '' nikkei '')) = (Some (str_of ''^N225''), Some name_N225)
   \<and> normalize_code (Some (str_of ''7203'')) \<notin> dom JP_INDEX_MAPPING
   \<and> get_jp_index_yf_symbol (Some (str_of ''7203'')) = (None, None)"
proof -
  have "JP_INDEX_MAPPING (normalize_code (Some (str_of '' nikkei ''))) = Some (str_of ''^N225'', name_N225)"
    "normalize_code (Some (str_of ''7203'')) \<notin> dom JP_INDEX_MAPPING"
    by (simp_all add: module_defs ascii_eval domIff)
  with C5_get_jp_index_yf_symbol [of "Some (str_of '' nikkei '')" "str_of ''^N225''" name_N225]
    C5_get_jp_index_yf_symbol [of "Some (str_of ''7203'')"]
  show ?thesis by simp
qed

text \<open>
  Claim C6, as stated, at the integer 7203: the value is truthy, so \<^verbatim>\<open>code or ''\<close> is the
  integer itself, and \<^verbatim>\<open>.strip()\<close> raises \<^verbatim>\<open>AttributeError\<close>, in a predicate and in a lookup.
\<close>

theorem C6_integer_argument_raises_counterexample:
  "py_call is_us_index_code (PyInt 7203) = Inl AttributeError
   \<and> py_call get_jp_stock_yf_symbol (PyInt 7203) = Inl AttributeError"
  by (simp add: py_call_def code_or_empty_def py_truthy_def strip_receiver_def)

text \<open>
  Claim C6, amended. On every argument that is a string or \<^verbatim>\<open>None\<close>, the type the functions
  declare, none of the seven functions raises: each returns a value. On \<^verbatim>\<open>None\<close>, on the
  empty string and on a string of white space only, every predicate returns false and
  every lookup returns \<open>(None, None)\<close>.
\<close>

theorem C6_str_or_None_never_raises:
  assumes "v = PyNone \<or> (\<exists>s. v = PyStr s)"
  shows "(\<exists>b. py_call is_us_index_code v = Inr b) \<and> (\<exists>b. py_call is_us_stock_code v = Inr b)
    \<and> (\<exists>b. py_call is_jp_stock_code v = Inr b) \<and> (\<exists>b. py_call is_jp_index_code v = Inr b)
    \<and> (\<exists>r. py_call get_us_index_yf_symbol v = Inr r)
    \<and> (\<exists>r. py_call get_jp_stock_yf_symbol v = Inr r)
    \<and> (\<exists>r. py_call get_jp_index_yf_symbol v = Inr r)
    \<and> (v = PyNone \<or> (\<exists>s. v = PyStr s \<and> list_all py_isspace s) \<longrightarrow>
         py_call is_us_index_code v = Inr False \<and> py_call is_us_stock_code v = Inr False
       \<and> py_call is_jp_stock_code v = Inr False \<and> py_call is_jp_index_code v = Inr False
       \<and> py_call get_us_index_yf_symbol v = Inr (None, None)
       \<and> py_call get_jp_stock_yf_symbol v = Inr (None, None)
       \<and> py_call get_jp_index_yf_symbol v = Inr (None, None))"
proof -
  define s where "s = (case v of PyStr x \<Rightarrow> x | _ \<Rightarrow> [])"
  from assms have s: "strip_receiver (code_or_empty v) = Inr s" and sv: "s = [] \<or> v = PyStr s"
    by (auto simp: s_def code_or_empty_def py_truthy_def strip_receiver_def)
  then have call: "py_call f v = Inr (f (Some s))" for f :: "str option \<Rightarrow> 'a"
    by (simp add: py_call_def)
  have blank: "normalize_code (Some s) = []"
    if "v = PyNone \<or> (\<exists>s. v = PyStr s \<and> list_all py_isspace s)"
  proof -
    from that sv have "list_all py_isspace s" by auto
    then show ?thesis by (intro normalize_blank) simp
  qed
  have "is_us_index_code (Some s) = False \<and> is_us_stock_code (Some s) = False
       \<and> is_jp_stock_code (Some s) = False \<and> is_jp_index_code (Some s) = False
       \<and> get_us_index_yf_symbol (Some s) = (None, None)
       \<and> get_jp_stock_yf_symbol (Some s) = (None, None)
       \<and> get_jp_index_yf_symbol (Some s) = (None, None)"
    if "v = PyNone \<or> (\<exists>s. v = PyStr s \<and> list_all py_isspace s)"
    using blank [OF that] by (simp add: fun_defs run_MAX_REPEAT_numeral)
  then show ?thesis unfolding call by simp
qed

theorem C6_str_or_None_never_raises_witness:
  "(\<exists>b. py_call is_us_stock_code (PyStr (str_of ''7203.T.T'')) = Inr b)
   \<and> (\<exists>r. py_call get_jp_stock_yf_symbol (PyStr [0x40, 0xB2, 0xA]) = Inr r)
   \<and> list_all py_isspace [0x20, 0x9, 0x3000]
   \<and> py_call is_us_index_code (PyStr [0x20, 0x9, 0x3000]) = Inr False
   \<and> py_call is_us_stock_code PyNone = Inr False
   \<and> py_call is_jp_stock_code (PyStr []) = Inr False
   \<and> py_call is_jp_index_code (PyStr [0x20, 0x9, 0x3000]) = Inr False
   \<and> py_call get_us_index_yf_symbol (PyStr [0x20, 0x9, 0x3000]) = Inr (None, None)
   \<and> py_call get_jp_stock_yf_symbol PyNone = Inr (None, None)
   \<and> py_call get_jp_index_yf_symbol (PyStr []) = Inr (None, None)"
proof -
  have w: "list_all py_isspace [0x20, 0x9, 0x3000]"
    by (simp add: py_isspace_def in_ranges_def whitespace_ranges_def)
  from w C6_str_or_None_never_raises [of "PyStr (str_of ''7203.T.T'')"]
    C6_str_or_None_never_raises [of "PyStr [0x40, 0xB2, 0xA]"]
    C6_str_or_None_never_raises [of "PyStr [0x20, 0x9, 0x3000]"]
    C6_str_or_None_never_raises [of PyNone] C6_str_or_None_never_raises [of "PyStr []"]
  show ?thesis by simp
qed

text \<open>
  Claim C7. Normalization is idempotent, each of the seven functions returns on the
  normalized code what it returns on the code, and \<open>is_us_index_code\<close> agrees on
  \<^verbatim>\<open>" spx "\<close> and \<^verbatim>\<open>"SPX"\<close>.
\<close>

theorem C7_normalization_idempotent:
  "normalize_code (Some (normalize_code code)) = normalize_code code
   \<and> is_us_index_code (Some (normalize_code code)) = is_us_index_code code
   \<and> is_us_stock_code (Some (normalize_code code)) = is_us_stock_code code
   \<and> get_us_index_yf_symbol (Some (normalize_code code)) = get_us_index_yf_symbol code
   \<and> is_jp_stock_code (Some (normalize_code code)) = is_jp_stock_code code
   \<and> get_jp_stock_yf_symbol (Some (normalize_code code)) = get_jp_stock_yf_symbol code
   \<and> is_jp_index_code (Some (normalize_code code)) = is_jp_index_code code
   \<and> get_jp_index_yf_symbol (Some (normalize_code code)) = get_jp_index_yf_symbol code
   \<and> is_us_index_code (Some (str_of '' spx '')) = is_us_index_code (Some (str_of ''SPX''))"
proof -
  have "is_us_index_code (Some (str_of '' spx ''))" "is_us_index_code (Some (str_of ''SPX''))"
    by (simp_all add: module_defs ascii_eval)
  then show ?thesis
    by (simp add: normalize_idem is_us_index_code_def is_us_stock_code_def get_us_index_yf_symbol_def
        is_jp_stock_code_def get_jp_stock_yf_symbol_def is_jp_index_code_def get_jp_index_yf_symbol_def)
qed

theorem C7_normalization_idempotent_witness:
  "normalize_code (Some (str_of '' Brk.b '')) = str_of ''BRK.B''
   \<and> normalize_code (Some (normalize_code (Some (str_of '' Brk.b '')))) = str_of ''BRK.B''
   \<and> is_us_stock_code (Some (str_of ''BRK.B''))"
proof -
  have "normalize_code (Some (str_of '' Brk.b '')) = str_of ''BRK.B''"
    "is_us_stock_code (Some (str_of '' Brk.b ''))"
    by (simp_all add: module_defs ascii_eval)
  with C7_normalization_idempotent [of "Some (str_of '' Brk.b '')"] show ?thesis by simp
qed

text \<open>
  Claim C8. The flag \<^verbatim>\<open>re.IGNORECASE\<close> of the Japan stock pattern changes nothing:
  \<open>is_jp_stock_code\<close> returns what the pattern compiled without the flag returns on the
  normalized code.
\<close>

theorem C8_ignorecase_redundant:
  "is_jp_stock_code code = re_match JP_STOCK_PATTERN_CASE_SENSITIVE (normalize_code code)"
proof -
  have "re_match JP_STOCK_PATTERN_CASE_SENSITIVE (normalize_code code)
      = re_match (jp_pattern (LITERAL 0x4A) (LITERAL 0x50) (LITERAL 0x54)) (normalize_code code)"
    by (simp add: JP_STOCK_PATTERN_CASE_SENSITIVE_def jp_pattern_def)
  also have "\<dots> = jp_stock_shape (atom_matches (LITERAL 0x4A)) (atom_matches (LITERAL 0x50))
      (atom_matches (LITERAL 0x54)) (normalize_code code)"
    using normalize_no_newline by (rule jp_match_iff)
  finally show ?thesis by (simp only: jp_classifier_shape)
qed

theorem C8_ignorecase_redundant_witness:
  "is_jp_stock_code (Some (str_of '' jp7203 ''))
   \<and> re_match JP_STOCK_PATTERN_CASE_SENSITIVE (normalize_code (Some (str_of '' jp7203 '')))
   \<and> \<not> re_match JP_STOCK_PATTERN_CASE_SENSITIVE (str_of ''jp7203'')"
proof -
  have "is_jp_stock_code (Some (str_of '' jp7203 ''))"
    "\<not> re_match JP_STOCK_PATTERN_CASE_SENSITIVE (str_of ''jp7203'')"
    by (simp_all add: module_defs JP_STOCK_PATTERN_CASE_SENSITIVE_def ascii_eval)
  with C8_ignorecase_redundant [of "Some (str_of '' jp7203 '')"] show ?thesis by simp
qed

text \<open>
  Claim C9, as the code has it. \<open>SPX\<close> is three letters and does match the US stock pattern
  (the counterexample to the claim as stated); \<open>is_us_stock_code\<close> is false on it because
  \<open>SPX\<close> is a key of the US index table, which is checked first.
\<close>

theorem C9_SPX_rejected_by_precedence:
  "normalize_code (Some (str_of ''SPX'')) = str_of ''SPX''
   \<and> us_stock_shape (str_of ''SPX'')
   \<and> re_match US_STOCK_PATTERN (str_of ''SPX'')
   \<and> is_us_index_code (Some (str_of ''SPX''))
   \<and> \<not> is_us_stock_code (Some (str_of ''SPX''))"
proof (intro conjI)
  have m: "re_match US_STOCK_PATTERN (str_of ''SPX'')"
    by (simp add: module_defs ascii_eval)
  then show "re_match US_STOCK_PATTERN (str_of ''SPX'')" .
  from m show "us_stock_shape (str_of ''SPX'')"
    by (subst (asm) us_match_iff) (simp_all add: str_of_def)
qed (simp_all add: module_defs ascii_eval)

theorem C9_SPX_matches_pattern_counterexample:
  "re_match US_STOCK_PATTERN (str_of ''SPX'')"
  by (simp add: module_defs ascii_eval)

text \<open>
  Claim C10 at the input of four superscript twos (U+00B2): \<open>get_jp_stock_yf_symbol\<close>
  returns a symbol, since \<^verbatim>\<open>str.isdigit\<close> accepts the character, and \<open>is_jp_stock_code\<close> is
  false, since \<^verbatim>\<open>\d\<close> matches decimal digits only.
\<close>

theorem C10_superscript_digits_diverge:
  "get_jp_stock_yf_symbol (Some [0xB2, 0xB2, 0xB2, 0xB2]) = (Some ([0xB2, 0xB2, 0xB2, 0xB2] @ str_of ''.T''), None)
   \<and> \<not> is_jp_stock_code (Some [0xB2, 0xB2, 0xB2, 0xB2])"
  by (simp add: module_defs superscript_two run_MAX_REPEAT_numeral)

section \<open>The four steps on decimal digits\<close>

text \<open>
  On every code whose digits (\<^verbatim>\<open>str.isdigit\<close>) are all decimal digits, so on all ASCII
  input, \<open>get_jp_stock_yf_symbol\<close> is the four steps on the normalized code. The name it
  returns is \<^verbatim>\<open>None\<close> on every input, and the four examples of the specification hold.
\<close>

theorem get_jp_stock_yf_symbol_steps:
  "(list_all (\<lambda>c. py_isdigit c \<longrightarrow> py_isdecimal c) (normalize_code code)
      \<longrightarrow> get_jp_stock_yf_symbol code = jp_symbol_steps (normalize_code code))
   \<and> snd (get_jp_stock_yf_symbol code) = None
   \<and> get_jp_stock_yf_symbol (Some (str_of ''JP7203'')) = (Some (str_of ''7203.T''), None)
   \<and> get_jp_stock_yf_symbol (Some (str_of ''7203.T'')) = (Some (str_of ''7203.T''), None)
   \<and> get_jp_stock_yf_symbol (Some (str_of ''7203'')) = (Some (str_of ''7203.T''), None)
   \<and> get_jp_stock_yf_symbol (Some (str_of ''AAPL'')) = (None, None)"
proof (intro conjI impI)
  show "get_jp_stock_yf_symbol code = jp_symbol_steps (normalize_code code)"
    if "list_all (\<lambda>c. py_isdigit c \<longrightarrow> py_isdecimal c) (normalize_code code)"
    using that by (rule jp_symbol_steps_decimal)
  show "snd (get_jp_stock_yf_symbol code) = None"
    by (simp add: get_jp_stock_yf_symbol_def Let_def)
qed (simp_all add: module_defs ascii_eval)

theorem get_jp_stock_yf_symbol_steps_witness:
  "list_all (\<lambda>c. py_isdigit c \<longrightarrow> py_isdecimal c) (normalize_code (Some (str_of '' jp7203 '')))
   \<and> jp_symbol_steps (normalize_code (Some (str_of '' jp7203 ''))) = (Some (str_of ''7203.T''), None)
   \<and> jp_symbol_steps (normalize_code (Some (str_of ''7203.t''))) = (Some (str_of ''7203.T''), None)
   \<and> jp_symbol_steps (normalize_code (Some (str_of ''72030''))) = (None, None)"
proof -
  have "list_all (\<lambda>c. py_isdigit c \<longrightarrow> py_isdecimal c) (normalize_code (Some (str_of '' jp7203 '')))"
    "list_all (\<lambda>c. py_isdigit c \<longrightarrow> py_isdecimal c) (normalize_code (Some (str_of ''7203.t'')))"
    "list_all (\<lambda>c. py_isdigit c \<longrightarrow> py_isdecimal c) (normalize_code (Some (str_of ''72030'')))"
    "get_jp_stock_yf_symbol (Some (str_of '' jp7203 '')) = (Some (str_of ''7203.T''), None)"
    "get_jp_stock_yf_symbol (Some (str_of ''7203.t'')) = (Some (str_of ''7203.T''), None)"
    "get_jp_stock_yf_symbol (Some (str_of ''72030'')) = (None, None)"
    by (simp_all add: module_defs ascii_eval)
  with get_jp_stock_yf_symbol_steps [of "Some (str_of '' jp7203 '')"]
    get_jp_stock_yf_symbol_steps [of "Some (str_of ''7203.t'')"]
    get_jp_stock_yf_symbol_steps [of "Some (str_of ''72030'')"]
  show ?thesis by simp
qed

section \<open>The classifier and the translator of Japan stock codes\<close>

text \<open>
  Every code \<open>is_jp_stock_code\<close> accepts gets a symbol from \<open>get_jp_stock_yf_symbol\<close>. The
  converse holds for the codes whose digits (\<^verbatim>\<open>str.isdigit\<close>) are all decimal digits, so on
  ASCII input the two recognise the same codes.
\<close>

theorem jp_classifier_and_translator:
  "(is_jp_stock_code code \<longrightarrow> fst (get_jp_stock_yf_symbol code) \<noteq> None)
   \<and> (list_all (\<lambda>c. py_isdigit c \<longrightarrow> py_isdecimal c) (normalize_code code)
        \<longrightarrow> (fst (get_jp_stock_yf_symbol code) \<noteq> None) = is_jp_stock_code code)"
  using jp_classifier_translator jp_translator_classifier by blast

theorem jp_classifier_and_translator_witness:
  "is_jp_stock_code (Some (str_of ''7203.t''))
   \<and> fst (get_jp_stock_yf_symbol (Some (str_of ''7203.t''))) \<noteq> None
   \<and> list_all (\<lambda>c. py_isdigit c \<longrightarrow> py_isdecimal c) (normalize_code (Some (str_of ''aapl'')))
   \<and> \<not> is_jp_stock_code (Some (str_of ''aapl''))
   \<and> fst (get_jp_stock_yf_symbol (Some (str_of ''aapl''))) = None"
proof -
  have "is_jp_stock_code (Some (str_of ''7203.t''))"
    "list_all (\<lambda>c. py_isdigit c \<longrightarrow> py_isdecimal c) (normalize_code (Some (str_of ''aapl'')))"
    "\<not> is_jp_stock_code (Some (str_of ''aapl''))"
    by (simp_all add: module_defs ascii_eval)
  with jp_classifier_and_translator [of "Some (str_of ''7203.t'')"]
    jp_classifier_and_translator [of "Some (str_of ''aapl'')"]
  show ?thesis by simp
qed

end
